theory Spec2Isabelle
  imports Complex_Main "HOL-Library.Sublist"
begin

section \<open>Automated Insight Engine: report pipeline and HTTP gateway\<close>

text \<open>
  A shallow embedding of \<^verbatim>\<open>scripts/generate_report.py\<close> (the function
  \<^verbatim>\<open>run_report\<close>) and of the request handlers of
  \<^verbatim>\<open>scripts/api_server.py\<close>.

  The program is a thin layer over pandas, matplotlib, fpdf, python-pptx and the
  OpenAI client. The embedding follows the documented behaviour of the pandas
  operations the source calls (each is a definition below, named after the
  operation). What the source leaves to its libraries and the embedding cannot
  derive is a parameter of the model, collected in the record \<open>libraries\<close>: the
  CSV parser, \<^verbatim>\<open>pd.to_numeric\<close>, the text of a float, the Unicode database of
  the interpreter beyond ASCII, and whether drawing a figure or typesetting a
  narrative raises. The files the pipeline writes are modelled by what they
  are built from (a chart by its title, labels and data; a document by its
  narrative and the images it embeds).
\<close>

subsection \<open>Text\<close>

text \<open>
  A Python \<^verbatim>\<open>str\<close> is a sequence of Unicode code points. Column labels, cell
  texts and the narrative are such sequences; \<open>ustr\<close> is a literal of the
  source.
\<close>

type_synonym ustring = "nat list"

definition ustr :: "string \<Rightarrow> ustring" where
  "ustr s = map of_char s"

datatype chart_kind = BarH | BarV | CountH | Line

text \<open>
  A cell of a table: \<open>NaN\<close> is pandas' missing value, \<open>Str\<close> a text, \<open>Num\<close> an
  int64, \<open>Flt\<close> a finite float64 (held by its value), \<open>PosInf\<close> and \<open>NegInf\<close>
  the infinite float64 values, \<open>Bool\<close> a boolean.
\<close>

datatype cell = NaN | Str ustring | Num int | Flt real | PosInf | NegInf | Bool bool

datatype chart = Chart chart_kind string string string "(cell \<times> cell) list"

datatype pdf_doc = PdfDoc string "ustring option" "string list"

datatype deck = Deck string "ustring option" "string list"

datatype content = Raw string | Png chart | PdfFile pdf_doc | PptxFile deck

type_synonym dataframe = "(ustring \<times> cell list) list"

text \<open>
  The libraries. \<open>unicode_decimal\<close> is \<^verbatim>\<open>unicodedata.decimal\<close> and
  \<open>unicode_space\<close> is \<^verbatim>\<open>str.isspace\<close>, both consulted for code points from 128
  on only; \<open>read_csv\<close> yields a table or the message of the exception it
  raises; \<open>to_numeric\<close> is \<^verbatim>\<open>pd.to_numeric(column, errors="coerce")\<close>;
  \<open>float_str\<close> is \<^verbatim>\<open>str\<close> of a finite float; \<open>savefig_error\<close> is the message of
  the exception that drawing and saving a figure raises, if it raises;
  \<open>pdf_accepts\<close> and \<open>pptx_accepts\<close> tell whether the document library can
  typeset a narrative.
\<close>

record libraries =
  unicode_decimal :: "nat \<Rightarrow> nat option"
  unicode_space :: "nat \<Rightarrow> bool"
  read_csv :: "content \<Rightarrow> string + dataframe"
  to_numeric :: "cell list \<Rightarrow> cell list"
  float_str :: "real \<Rightarrow> ustring"
  savefig_error :: "chart \<Rightarrow> string option"
  pdf_accepts :: "ustring \<Rightarrow> bool"
  pptx_accepts :: "ustring \<Rightarrow> bool"

text \<open>
  The character classes of \<^verbatim>\<open>\d\<close> (and of \<^verbatim>\<open>float\<close>) and of \<^verbatim>\<open>str.strip\<close>: the
  ASCII part is fixed, the rest is the interpreter's Unicode database.
\<close>

definition is_digit :: "libraries \<Rightarrow> nat \<Rightarrow> bool" where
  "is_digit lib c = (if c < 128 then 48 \<le> c \<and> c \<le> 57 else unicode_decimal lib c \<noteq> None)"

definition digit_val :: "libraries \<Rightarrow> nat \<Rightarrow> nat" where
  "digit_val lib c =
     (if c < 128 then c - 48
      else (case unicode_decimal lib c of Some d \<Rightarrow> d | None \<Rightarrow> 0))"

definition is_space :: "libraries \<Rightarrow> nat \<Rightarrow> bool" where
  "is_space lib c =
     (if c < 128 then c \<in> set [9, 10, 11, 12, 13, 28, 29, 30, 31, 32] else unicode_space lib c)"

text \<open>\<^verbatim>\<open>str.strip()\<close>: whitespace removed at both ends.\<close>

definition strip :: "libraries \<Rightarrow> ustring \<Rightarrow> ustring" where
  "strip lib s = rev (dropWhile (is_space lib) (rev (dropWhile (is_space lib) s)))"

text \<open>The integer a run of decimal digits denotes.\<close>

definition nat_of_digits :: "libraries \<Rightarrow> ustring \<Rightarrow> nat" where
  "nat_of_digits lib ds = foldl (\<lambda>n c. 10 * n + digit_val lib c) 0 ds"

text \<open>
  \<^verbatim>\<open>float(s)\<close> for a run of digits \<open>s\<close> denoting \<open>n\<close>: the float64 nearest to \<open>n\<close>,
  ties to the even significand, and infinity from \<open>2 ^ 1024 - 2 ^ 970\<close> on.
\<close>

fun bit_length :: "nat \<Rightarrow> nat" where
  "bit_length n = (if n = 0 then 0 else Suc (bit_length (n div 2)))"

definition float64_of_nat :: "nat \<Rightarrow> cell" where
  "float64_of_nat n =
     (let e = bit_length n - 53;
          q = n div 2 ^ e;
          r = n mod 2 ^ e;
          m = (if 2 ^ e < 2 * r \<or> (2 * r = 2 ^ e \<and> odd q) then q + 1 else q) * 2 ^ e
      in if 2 ^ 1024 \<le> m then PosInf else Flt (real m))"

text \<open>\<^verbatim>\<open>str(n)\<close> for an integer.\<close>

fun str_of_nat :: "nat \<Rightarrow> ustring" where
  "str_of_nat n = (if n < 10 then [48 + n] else str_of_nat (n div 10) @ [48 + n mod 10])"

definition str_of_int :: "int \<Rightarrow> ustring" where
  "str_of_int i = (if i < 0 then 45 # str_of_nat (nat (- i)) else str_of_nat (nat i))"

text \<open>
  \<^verbatim>\<open>s.split(", ")\<close>: the pieces between the non-overlapping occurrences of the
  two-character delimiter (comma 44, space 32), scanned from the left; empty
  pieces are kept.
\<close>

fun split_acc :: "ustring \<Rightarrow> ustring \<Rightarrow> ustring list" where
  "split_acc acc [] = [rev acc]"
| "split_acc acc [c] = [rev (c # acc)]"
| "split_acc acc (c # d # cs) =
     (if c = 44 \<and> d = 32 then rev acc # split_acc [] cs
      else split_acc (c # acc) (d # cs))"

definition split_comma_space :: "ustring \<Rightarrow> ustring list" where
  "split_comma_space s = split_acc [] s"

text \<open>
  \<^verbatim>\<open>re.search(r"(\d+)", s)\<close>, as \<^verbatim>\<open>Series.str.extract\<close> applies it: the first
  maximal run of digits, wherever it starts; no digit, no match.
\<close>

definition extract_digits :: "libraries \<Rightarrow> ustring \<Rightarrow> ustring option" where
  "extract_digits lib s =
     (let r = dropWhile (\<lambda>c. \<not> is_digit lib c) s
      in if r = [] then None else Some (takeWhile (is_digit lib) r))"

subsection \<open>Paths and the file system\<close>

text \<open>
  Paths are the byte strings the operating system sees.
  \<^verbatim>\<open>os.path.join\<close> on POSIX: an absolute second component replaces the first.
\<close>

definition path_join :: "string \<Rightarrow> string \<Rightarrow> string" where
  "path_join a b =
     (if b \<noteq> [] \<and> hd b = CHR ''/'' then b
      else if a = [] \<or> last a = CHR ''/'' then a @ b
      else a @ ''/'' @ b)"

text \<open>\<^verbatim>\<open>str.lower\<close> on the ASCII letters.\<close>

definition lower_char :: "char \<Rightarrow> char" where
  "lower_char c =
     (case map_of (zip ''ABCDEFGHIJKLMNOPQRSTUVWXYZ'' ''abcdefghijklmnopqrstuvwxyz'') c of
        None \<Rightarrow> c
      | Some l \<Rightarrow> l)"

definition lower :: "string \<Rightarrow> string" where
  "lower s = map lower_char s"

text \<open>
  \<^verbatim>\<open>os.path.splitext(p)[1]\<close>: the part from the last dot on, when that dot comes
  after the last slash and is preceded in the file name by a character that is
  not a dot; empty otherwise. Indices are Python's, with \<open>-1\<close> for "not found".
\<close>

definition rfind :: "string \<Rightarrow> char \<Rightarrow> int" where
  "rfind p c = (if c \<in> set p then int (length p) - 1 - int (length (takeWhile (\<lambda>x. x \<noteq> c) (rev p))) else - 1)"

definition splitext_ext :: "string \<Rightarrow> string" where
  "splitext_ext p =
     (let sepIndex = rfind p (CHR ''/'');
          dotIndex = rfind p (CHR ''.'')
      in if dotIndex > sepIndex \<and>
            list_ex (\<lambda>c. c \<noteq> CHR ''.'') (take (nat (dotIndex - (sepIndex + 1))) (drop (nat (sepIndex + 1)) p))
         then drop (nat dotIndex) p else [])"

text \<open>
  A path names nothing, a directory or a file. A file holds the bytes of an
  upload or what the pipeline wrote there.
\<close>

datatype node = Dir | File content

type_synonym filesystem = "string \<rightharpoonup> node"

definition exists :: "filesystem \<Rightarrow> string \<Rightarrow> bool" where
  "exists fs p = (fs p \<noteq> None)"

definition DATA_DIR :: "string \<Rightarrow> string" where
  "DATA_DIR PROJECT_DIR = path_join PROJECT_DIR ''data''"

definition REPORTS_DIR :: "string \<Rightarrow> string" where
  "REPORTS_DIR PROJECT_DIR = path_join PROJECT_DIR ''reports''"

definition UPLOADS_DIR :: "string \<Rightarrow> string" where
  "UPLOADS_DIR PROJECT_DIR = path_join PROJECT_DIR ''uploads''"

text \<open>
  The exceptions. \<open>PandasError\<close> is what the CSV parser raises;
  \<open>AttributeError\<close>, \<open>TypeError\<close> and \<open>ValueError\<close> are raised by pandas when a
  label selects more than one column; \<open>PlotError\<close> comes from drawing a figure
  and \<open>DocumentError\<close> from typesetting a narrative.
\<close>

definition quoted :: "string \<Rightarrow> string" where
  "quoted s = [CHR 0x27] @ s @ [CHR 0x27]"

datatype exn =
    FileNotFoundError string
  | IsADirectoryError string
  | SameFileError string
  | PandasError string
  | AttributeError string
  | TypeError string
  | ValueError string
  | PlotError string
  | DocumentError string
  | HTTPException nat string

text \<open>Opening a path for writing and storing the content.\<close>

definition write_file :: "filesystem \<Rightarrow> string \<Rightarrow> content \<Rightarrow> exn + filesystem" where
  "write_file fs p c =
     (if fs p = Some Dir then Inl (IsADirectoryError p) else Inr (fs(p \<mapsto> File c)))"

subsection \<open>Tables\<close>

text \<open>
  A table is its columns in order, each a label and the cells of that column.
  Labels may repeat; \<open>column\<close> is the first column of a label, and a label is
  ambiguous when it names more than one column (pandas then hands out a table
  where the source expects a column).
\<close>

definition column :: "dataframe \<Rightarrow> ustring \<Rightarrow> cell list option" where
  "column df name = map_of df name"

definition ambiguous :: "dataframe \<Rightarrow> ustring \<Rightarrow> bool" where
  "ambiguous df name = (1 < count_list (map fst df) name)"

definition nrows :: "dataframe \<Rightarrow> nat" where
  "nrows df = (case df of [] \<Rightarrow> 0 | (n, c) # rest \<Rightarrow> length c)"

text \<open>
  \<^verbatim>\<open>df[name] = values\<close>: replaces every column of that label, or appends a new
  column.
\<close>

definition set_column :: "dataframe \<Rightarrow> ustring \<Rightarrow> cell list \<Rightarrow> dataframe" where
  "set_column df name vs =
     (if name \<in> set (map fst df)
      then map (\<lambda>(n, c). if n = name then (n, vs) else (n, c)) df
      else df @ [(name, vs)])"

definition dropna :: "cell list \<Rightarrow> cell list" where
  "dropna xs = filter (\<lambda>v. v \<noteq> NaN) xs"

text \<open>\<^verbatim>\<open>astype(str)\<close>: a missing value becomes the text \<^verbatim>\<open>nan\<close>.\<close>

definition astype_str :: "libraries \<Rightarrow> cell \<Rightarrow> ustring" where
  "astype_str lib v =
     (case v of
        NaN \<Rightarrow> ustr ''nan''
      | Str s \<Rightarrow> s
      | Num n \<Rightarrow> str_of_int n
      | Flt x \<Rightarrow> float_str lib x
      | PosInf \<Rightarrow> ustr ''inf''
      | NegInf \<Rightarrow> ustr ''-inf''
      | Bool b \<Rightarrow> (if b then ustr ''True'' else ustr ''False''))"

text \<open>The distinct values of a list, in the order of their first occurrence.\<close>

definition uniques :: "'a list \<Rightarrow> 'a list" where
  "uniques xs = rev (remdups (rev xs))"

text \<open>
  \<^verbatim>\<open>Series.value_counts()\<close> with its defaults (\<^verbatim>\<open>sort=True\<close>,
  \<^verbatim>\<open>ascending=False\<close>, \<^verbatim>\<open>dropna=True\<close>): missing values are left out, every
  other distinct value is paired with the number of its occurrences, and the
  pairs are ordered by descending count. Among values with equal counts the
  order is the choice of pandas' sort; the model lists them by first
  occurrence.
\<close>

definition value_counts :: "cell list \<Rightarrow> (cell \<times> nat) list" where
  "value_counts xs =
     (let vs = dropna xs
      in sort_key (\<lambda>p. - int (snd p)) (map (\<lambda>v. (v, count_list vs v)) (uniques vs)))"

text \<open>\<^verbatim>\<open>.head(n)\<close>\<close>

definition head :: "nat \<Rightarrow> 'a list \<Rightarrow> 'a list" where
  "head n xs = take n xs"

text \<open>
  \<^verbatim>\<open>.str.split(", ", expand=True).stack()\<close>: every piece of every row, row by
  row; the padding that \<^verbatim>\<open>expand=True\<close> adds to short rows is dropped by
  \<^verbatim>\<open>stack\<close>.
\<close>

definition split_stack :: "ustring list \<Rightarrow> cell list" where
  "split_stack rows = map Str (concat (map split_comma_space rows))"

text \<open>The value of a numeric cell, and its place among the infinities.\<close>

definition cell_real :: "cell \<Rightarrow> real" where
  "cell_real v =
     (case v of
        Num n \<Rightarrow> real_of_int n
      | Flt x \<Rightarrow> x
      | Bool b \<Rightarrow> (if b then 1 else 0)
      | _ \<Rightarrow> 0)"

definition cell_rank :: "cell \<Rightarrow> nat" where
  "cell_rank v = (case v of NegInf \<Rightarrow> 0 | PosInf \<Rightarrow> 2 | _ \<Rightarrow> 1)"

text \<open>
  \<^verbatim>\<open>.mean()\<close> of float64 values without missing ones. Sums and quotients of
  finite values are taken in the reals.
\<close>

definition mean :: "cell list \<Rightarrow> cell" where
  "mean vs =
     (if PosInf \<in> set vs \<and> NegInf \<in> set vs then NaN
      else if PosInf \<in> set vs then PosInf
      else if NegInf \<in> set vs then NegInf
      else Flt (sum_list (map cell_real vs) / real (length vs)))"

text \<open>
  \<^verbatim>\<open>df.dropna(subset=[v]).groupby(k)[v].mean()\<close>: rows with a missing value are
  dropped, rows with a missing key belong to no group, and each remaining key
  is paired with the mean of its values. The groups are listed in the order
  of first occurrence (pandas lists them in key order).
\<close>

definition groupby_mean :: "cell list \<Rightarrow> cell list \<Rightarrow> (cell \<times> cell) list" where
  "groupby_mean keys vals =
     (let rows = filter (\<lambda>(k, v). v \<noteq> NaN \<and> k \<noteq> NaN) (zip keys vals)
      in map (\<lambda>k. (k, mean (map snd (filter (\<lambda>(k', v). k' = k) rows)))) (uniques (map fst rows)))"

text \<open>Sequencing of steps that may raise.\<close>

definition and_then :: "'e + 'a \<Rightarrow> ('a \<Rightarrow> 'e + 'b) \<Rightarrow> 'e + 'b" where
  "and_then m f = (case m of Inl e \<Rightarrow> Inl e | Inr x \<Rightarrow> f x)"

subsection \<open>Feature preparation (step 3 of \<^verbatim>\<open>run_report\<close>)\<close>

text \<open>
  \<^verbatim>\<open>.astype(str).str.extract(r"(\d+)").astype(float)\<close> on one cell.
\<close>

definition duration_num_of :: "libraries \<Rightarrow> cell \<Rightarrow> cell" where
  "duration_num_of lib v =
     (case extract_digits lib (astype_str lib v) of
        None \<Rightarrow> NaN
      | Some ds \<Rightarrow> float64_of_nat (nat_of_digits lib ds))"

definition strip_columns :: "libraries \<Rightarrow> dataframe \<Rightarrow> dataframe" where
  "strip_columns lib df = map (\<lambda>(n, c). (strip lib n, c)) df"

text \<open>
  With several columns labelled \<^verbatim>\<open>duration\<close>, \<^verbatim>\<open>df["duration"].astype(str)\<close> is
  a table and has no \<^verbatim>\<open>.str\<close>; with several labelled \<^verbatim>\<open>duration_num\<close>, the
  one-column result cannot be assigned to them.
\<close>

definition add_duration_num :: "libraries \<Rightarrow> dataframe \<Rightarrow> exn + dataframe" where
  "add_duration_num lib df =
     (case column df (ustr ''duration'') of
        Some col \<Rightarrow>
          (if ambiguous df (ustr ''duration'')
           then Inl (AttributeError (quoted ''DataFrame'' @ '' object has no attribute '' @ quoted ''str''))
           else if ambiguous df (ustr ''duration_num'')
           then Inl (ValueError ''Columns must be same length as key'')
           else Inr (set_column df (ustr ''duration_num'') (map (duration_num_of lib) col)))
      | None \<Rightarrow> Inr (set_column df (ustr ''duration_num'') (replicate (nrows df) NaN)))"

definition coerce_release_year :: "libraries \<Rightarrow> dataframe \<Rightarrow> exn + dataframe" where
  "coerce_release_year lib df =
     (case column df (ustr ''release_year'') of
        Some col \<Rightarrow>
          (if ambiguous df (ustr ''release_year'')
           then Inl (TypeError ''arg must be a list, tuple, 1-d array, or Series'')
           else Inr (set_column df (ustr ''release_year'') (to_numeric lib col)))
      | None \<Rightarrow> Inr df)"

definition prepare :: "libraries \<Rightarrow> dataframe \<Rightarrow> exn + dataframe" where
  "prepare lib df =
     and_then (add_duration_num lib (strip_columns lib df)) (coerce_release_year lib)"

subsection \<open>The six aggregates\<close>

definition top_genres :: "libraries \<Rightarrow> dataframe \<Rightarrow> (cell \<times> nat) list" where
  "top_genres lib df =
     (case column df (ustr ''listed_in'') of
        Some col \<Rightarrow> head 10 (value_counts (split_stack (map (astype_str lib) (dropna col))))
      | None \<Rightarrow> [])"

definition top_directors :: "dataframe \<Rightarrow> (cell \<times> nat) list" where
  "top_directors df =
     (case column df (ustr ''director'') of
        Some col \<Rightarrow> head 10 (value_counts (dropna col))
      | None \<Rightarrow> [])"

definition rating_counts :: "dataframe \<Rightarrow> (cell \<times> nat) list" where
  "rating_counts df =
     (case column df (ustr ''rating'') of
        Some col \<Rightarrow> value_counts col
      | None \<Rightarrow> [])"

text \<open>\<^verbatim>\<open>.value_counts().sort_index()\<close> on the coerced (numeric) year column.\<close>

definition per_year :: "dataframe \<Rightarrow> (cell \<times> nat) list" where
  "per_year df =
     (case column df (ustr ''release_year'') of
        Some col \<Rightarrow>
          sort_key (\<lambda>p. cell_rank (fst p)) (sort_key (\<lambda>p. cell_real (fst p)) (value_counts col))
      | None \<Rightarrow> [])"

definition type_counts :: "dataframe \<Rightarrow> (cell \<times> nat) list" where
  "type_counts df =
     (case column df (ustr ''type'') of
        Some col \<Rightarrow> value_counts col
      | None \<Rightarrow> [])"

definition avg_duration :: "dataframe \<Rightarrow> (cell \<times> cell) list" where
  "avg_duration df =
     (case column df (ustr ''duration_num'') of
        Some vals \<Rightarrow>
          (case column df (ustr ''type'') of
             Some keys \<Rightarrow> groupby_mean keys vals
           | None \<Rightarrow> [])
      | None \<Rightarrow> [])"

subsection \<open>Charts\<close>

text \<open>
  A chart block runs on the plots mapping and the file system as the blocks
  before it left them, and either hands both on or raises; an exception
  comes with the file system as it is at that moment.

  \<^verbatim>\<open>_save_plot(fig, filename)\<close> writes the figure under the reports directory and
  returns the path; the caller stores the path under the metric's key.
\<close>

type_synonym plot_state = "(string \<rightharpoonup> string) \<times> filesystem"

type_synonym 'a raising = "(exn \<times> filesystem) + 'a"

text \<open>
  What a step that may raise leaves behind: the exception, if any; the file
  system in either case; and that it returns with a result of a given kind.
\<close>

definition raised :: "'a raising \<Rightarrow> exn option" where
  "raised r = (case r of Inl (e, fs) \<Rightarrow> Some e | Inr x \<Rightarrow> None)"

definition outcome_fs :: "plot_state raising \<Rightarrow> filesystem" where
  "outcome_fs r = (case r of Inl (e, fs) \<Rightarrow> fs | Inr st \<Rightarrow> snd st)"

definition returns :: "'e + 'a \<Rightarrow> ('a \<Rightarrow> bool) \<Rightarrow> bool" where
  "returns r P = (case r of Inl e \<Rightarrow> False | Inr x \<Rightarrow> P x)"

definition save_plot ::
  "libraries \<Rightarrow> string \<Rightarrow> filesystem \<Rightarrow> chart \<Rightarrow> string \<Rightarrow> (string \<times> filesystem) raising" where
  "save_plot lib proj fs fig filename =
     (let out_path = path_join (REPORTS_DIR proj) filename
      in case savefig_error lib fig of
           Some msg \<Rightarrow> Inl (PlotError msg, fs)
         | None \<Rightarrow>
             (case write_file fs out_path (Png fig) of
                Inl e \<Rightarrow> Inl (e, fs)
              | Inr fs' \<Rightarrow> Inr (out_path, fs')))"

definition store_plot ::
  "libraries \<Rightarrow> string \<Rightarrow> string \<Rightarrow> string \<Rightarrow> chart \<Rightarrow> plot_state \<Rightarrow> plot_state raising" where
  "store_plot lib proj key filename fig st =
     and_then (save_plot lib proj (snd st) fig filename)
       (\<lambda>(out_path, fs'). Inr ((fst st)(key \<mapsto> out_path), fs'))"

definition counts_data :: "(cell \<times> nat) list \<Rightarrow> (cell \<times> cell) list" where
  "counts_data agg = map (\<lambda>(v, n). (v, Num (int n))) agg"

definition plot_top_genres ::
  "libraries \<Rightarrow> string \<Rightarrow> dataframe \<Rightarrow> plot_state \<Rightarrow> plot_state raising" where
  "plot_top_genres lib proj df st =
     (if column df (ustr ''listed_in'') \<noteq> None then
        (if ambiguous df (ustr ''listed_in'')
         then Inl (AttributeError (quoted ''DataFrame'' @ '' object has no attribute '' @ quoted ''str''), snd st)
         else if top_genres lib df \<noteq> [] then
           store_plot lib proj ''top_genres'' ''top_genres.png''
             (Chart BarH ''Top 10 Genres'' ''Count'' ''Genre'' (counts_data (top_genres lib df))) st
         else Inr st)
      else Inr st)"

definition plot_top_directors ::
  "libraries \<Rightarrow> string \<Rightarrow> dataframe \<Rightarrow> plot_state \<Rightarrow> plot_state raising" where
  "plot_top_directors lib proj df st =
     (if column df (ustr ''director'') \<noteq> None then
        (if ambiguous df (ustr ''director'')
         then Inl (ValueError (''Grouper for '' @ quoted ''director'' @ '' not 1-dimensional''), snd st)
         else if top_directors df \<noteq> [] then
           store_plot lib proj ''top_directors'' ''top_directors.png''
             (Chart BarH ''Top 10 Directors'' ''Count'' ''Director'' (counts_data (top_directors df))) st
         else Inr st)
      else Inr st)"

definition plot_rating_distribution ::
  "libraries \<Rightarrow> string \<Rightarrow> dataframe \<Rightarrow> plot_state \<Rightarrow> plot_state raising" where
  "plot_rating_distribution lib proj df st =
     (if column df (ustr ''rating'') \<noteq> None then
        (if ambiguous df (ustr ''rating'')
         then Inl (ValueError (''Grouper for '' @ quoted ''rating'' @ '' not 1-dimensional''), snd st)
         else if rating_counts df \<noteq> [] then
           store_plot lib proj ''rating_distribution'' ''rating_distribution.png''
             (Chart CountH ''Rating Distribution'' ''Count'' ''Rating'' (counts_data (rating_counts df))) st
         else Inr st)
      else Inr st)"

definition plot_titles_per_year ::
  "libraries \<Rightarrow> string \<Rightarrow> dataframe \<Rightarrow> plot_state \<Rightarrow> plot_state raising" where
  "plot_titles_per_year lib proj df st =
     (if column df (ustr ''release_year'') \<noteq> None then
        (if ambiguous df (ustr ''release_year'')
         then Inl (ValueError (''Grouper for '' @ quoted ''release_year'' @ '' not 1-dimensional''), snd st)
         else if per_year df \<noteq> [] then
           store_plot lib proj ''titles_per_year'' ''titles_per_year.png''
             (Chart Line ''Titles Released per Year'' ''Year'' ''Number of Titles''
                (counts_data (per_year df))) st
         else Inr st)
      else Inr st)"

definition plot_type_count ::
  "libraries \<Rightarrow> string \<Rightarrow> dataframe \<Rightarrow> plot_state \<Rightarrow> plot_state raising" where
  "plot_type_count lib proj df st =
     (if column df (ustr ''type'') \<noteq> None then
        (if ambiguous df (ustr ''type'')
         then Inl (ValueError (''Grouper for '' @ quoted ''type'' @ '' not 1-dimensional''), snd st)
         else if type_counts df \<noteq> [] then
           store_plot lib proj ''type_count'' ''type_count.png''
             (Chart BarV ''Title Type Distribution'' ''Type'' ''Count'' (counts_data (type_counts df))) st
         else Inr st)
      else Inr st)"

definition plot_avg_duration ::
  "libraries \<Rightarrow> string \<Rightarrow> dataframe \<Rightarrow> plot_state \<Rightarrow> plot_state raising" where
  "plot_avg_duration lib proj df st =
     (if column df (ustr ''duration_num'') \<noteq> None \<and> column df (ustr ''type'') \<noteq> None then
        (if ambiguous df (ustr ''type'')
         then Inl (ValueError (''Grouper for '' @ quoted ''type'' @ '' not 1-dimensional''), snd st)
         else if avg_duration df \<noteq> [] then
           store_plot lib proj ''avg_movie_duration'' ''avg_movie_duration.png''
             (Chart BarV ''Average Duration by Type'' ''Type'' ''Average Duration'' (avg_duration df)) st
         else Inr st)
      else Inr st)"

definition render_charts ::
  "libraries \<Rightarrow> string \<Rightarrow> dataframe \<Rightarrow> filesystem \<Rightarrow> plot_state raising" where
  "render_charts lib proj df fs =
     and_then (plot_top_genres lib proj df (Map.empty, fs)) (\<lambda>st1.
     and_then (plot_top_directors lib proj df st1) (\<lambda>st2.
     and_then (plot_rating_distribution lib proj df st2) (\<lambda>st3.
     and_then (plot_titles_per_year lib proj df st3) (\<lambda>st4.
     and_then (plot_type_count lib proj df st4) (\<lambda>st5.
     plot_avg_duration lib proj df st5)))))"

text \<open>The file names the six chart blocks pass to \<^verbatim>\<open>_save_plot\<close>.\<close>

definition chart_files :: "string list" where
  "chart_files = [''top_genres.png'', ''top_directors.png'', ''rating_distribution.png'',
                  ''titles_per_year.png'', ''type_count.png'', ''avg_movie_duration.png'']"

subsection \<open>Narrative\<close>

text \<open>
  The prompt embeds the three categorical aggregates. The client is a
  parameter: whether the \<^verbatim>\<open>openai\<close> module could be imported, and what the
  completion call does with a prompt; \<open>Inl\<close> is any exception raised inside the
  \<^verbatim>\<open>try\<close> block, \<open>Inr\<close> the text of the first choice.
\<close>

datatype prompt = Prompt "(cell \<times> nat) list" "(cell \<times> nat) list" "(cell \<times> nat) list"

record openai =
  AI_ENABLED :: bool
  chat_create :: "prompt \<Rightarrow> string + ustring"

definition summary_prompt :: "libraries \<Rightarrow> dataframe \<Rightarrow> prompt" where
  "summary_prompt lib df = Prompt (top_genres lib df) (top_directors df) (rating_counts df)"

definition make_summary :: "libraries \<Rightarrow> openai \<Rightarrow> dataframe \<Rightarrow> ustring" where
  "make_summary lib ai df =
     (if AI_ENABLED ai then
        (case chat_create ai (summary_prompt lib df) of
           Inr reply \<Rightarrow> strip lib reply
         | Inl e \<Rightarrow> [])
      else [])"

subsection \<open>Documents\<close>

definition plot_keys :: "string list" where
  "plot_keys = [''top_genres'', ''top_directors'', ''rating_distribution'',
                ''titles_per_year'', ''type_count'', ''avg_movie_duration'']"

definition pdf_path :: "string \<Rightarrow> string" where
  "pdf_path proj = path_join (REPORTS_DIR proj) ''netflix_report.pdf''"

definition ppt_path :: "string \<Rightarrow> string" where
  "ppt_path proj = path_join (REPORTS_DIR proj) ''netflix_report.pptx''"

definition narrative_block :: "ustring \<Rightarrow> ustring option" where
  "narrative_block summary = (if summary \<noteq> [] then Some summary else None)"

text \<open>
  The PDF is typeset and written first, the slide deck after it. A narrative
  is typeset only when it is not empty.
\<close>

definition write_documents ::
  "libraries \<Rightarrow> string \<Rightarrow> ustring \<Rightarrow> (string \<rightharpoonup> string) \<Rightarrow> filesystem \<Rightarrow> filesystem raising" where
  "write_documents lib proj summary plot_files fs =
     (let images = List.map_filter plot_files plot_keys;
          pdf = PdfDoc ''Netflix Analysis Report'' (narrative_block summary) images;
          ppt = Deck ''Executive Summary'' (narrative_block summary) images
      in if summary \<noteq> [] \<and> \<not> pdf_accepts lib summary
         then Inl (DocumentError ''netflix_report.pdf'', fs)
         else
           (case write_file fs (pdf_path proj) (PdfFile pdf) of
              Inl e \<Rightarrow> Inl (e, fs)
            | Inr fs1 \<Rightarrow>
                (if summary \<noteq> [] \<and> \<not> pptx_accepts lib summary
                 then Inl (DocumentError ''netflix_report.pptx'', fs1)
                 else
                   (case write_file fs1 (ppt_path proj) (PptxFile ppt) of
                      Inl e \<Rightarrow> Inl (e, fs1)
                    | Inr fs2 \<Rightarrow> Inr fs2))))"

subsection \<open>\<^verbatim>\<open>run_report\<close>\<close>

record report_bundle =
  csv_path :: string
  pdf_file :: "string option"
  ppt_file :: "string option"
  ai_summary :: ustring
  plots :: "string \<rightharpoonup> string"

text \<open>Step 1: which CSV to use.\<close>

definition resolve_csv :: "string \<Rightarrow> filesystem \<Rightarrow> string option \<Rightarrow> string" where
  "resolve_csv proj fs csv =
     (case csv of
        None \<Rightarrow>
          (let current_candidate = path_join (DATA_DIR proj) ''current_dataset.csv'';
               default_netflix = path_join (DATA_DIR proj) ''netflix_titles.csv''
           in if exists fs current_candidate then current_candidate else default_netflix)
      | Some p \<Rightarrow> p)"

text \<open>Step 2: \<^verbatim>\<open>pd.read_csv(csv_path)\<close>.\<close>

definition load_csv :: "libraries \<Rightarrow> filesystem \<Rightarrow> string \<Rightarrow> exn + dataframe" where
  "load_csv lib fs p =
     (case fs p of
        None \<Rightarrow> Inl (FileNotFoundError p)
      | Some Dir \<Rightarrow> Inl (IsADirectoryError p)
      | Some (File c) \<Rightarrow>
          (case read_csv lib c of
             Inl msg \<Rightarrow> Inl (PandasError msg)
           | Inr df \<Rightarrow> Inr df))"

definition run_report ::
  "libraries \<Rightarrow> openai \<Rightarrow> string \<Rightarrow> filesystem \<Rightarrow> string option \<Rightarrow> bool
     \<Rightarrow> (exn + report_bundle) \<times> filesystem" where
  "run_report lib ai proj fs csv generate_files =
     (let p = resolve_csv proj fs csv
      in if \<not> exists fs p then (Inl (FileNotFoundError (''CSV file not found: '' @ p)), fs)
         else
           (case load_csv lib fs p of
              Inl e \<Rightarrow> (Inl e, fs)
            | Inr df0 \<Rightarrow>
                (case prepare lib df0 of
                   Inl e \<Rightarrow> (Inl e, fs)
                 | Inr df \<Rightarrow>
                     (case render_charts lib proj df fs of
                        Inl (e, fs1) \<Rightarrow> (Inl e, fs1)
                      | Inr st \<Rightarrow>
                          (let summary = make_summary lib ai df
                           in if generate_files
                              then
                                (case write_documents lib proj summary (fst st) (snd st) of
                                   Inl (e, fs2) \<Rightarrow> (Inl e, fs2)
                                 | Inr fs2 \<Rightarrow>
                                     (Inr \<lparr>csv_path = p, pdf_file = Some (pdf_path proj),
                                            ppt_file = Some (ppt_path proj),
                                            ai_summary = summary, plots = fst st\<rparr>,
                                      fs2))
                              else (Inr \<lparr>csv_path = p, pdf_file = None, ppt_file = None,
                                          ai_summary = summary, plots = fst st\<rparr>,
                                    snd st))))))"

subsection \<open>HTTP gateway (\<^verbatim>\<open>api_server.py\<close>)\<close>

text \<open>
  A handler takes the file system and returns its answer together with the
  file system it leaves behind. \<open>Inl (HTTPException status detail)\<close> is the
  error the handler raises itself; any other \<open>Inl\<close> is an exception the
  handler does not catch.
\<close>

datatype response =
    Uploaded string string
  | Ingested nat string
  | Analyzed string "string \<rightharpoonup> string" ustring
  | Generated string "string option" "string option" ustring "string \<rightharpoonup> string"

definition basename :: "string \<Rightarrow> string" where
  "basename p = rev (takeWhile (\<lambda>c. c \<noteq> CHR ''/'') (rev p))"

text \<open>
  \<^verbatim>\<open>shutil.copy(src, dst)\<close>: a destination that is a directory receives the file
  under the source's base name; copying a file onto itself is refused; the
  source must be a file.
\<close>

definition copy_file :: "filesystem \<Rightarrow> string \<Rightarrow> string \<Rightarrow> exn + filesystem" where
  "copy_file fs src dst =
     (let dst' = (if fs dst = Some Dir then path_join dst (basename src) else dst)
      in case fs src of
           None \<Rightarrow> Inl (FileNotFoundError src)
         | Some n \<Rightarrow>
             (if src = dst' then Inl (SameFileError src)
              else case n of
                     Dir \<Rightarrow> Inl (IsADirectoryError src)
                   | File c \<Rightarrow>
                       (if fs dst' = Some Dir then Inl (IsADirectoryError dst')
                        else Inr (fs(dst' \<mapsto> File c)))))"

definition current_dataset_path :: "string \<Rightarrow> string" where
  "current_dataset_path proj = path_join (DATA_DIR proj) ''current_dataset.csv''"

definition upload :: "string \<Rightarrow> filesystem \<Rightarrow> string \<Rightarrow> string \<Rightarrow> (exn + response) \<times> filesystem" where
  "upload proj fs filename body =
     (let ext = lower (splitext_ext filename)
      in if ext \<noteq> ''.csv''
         then (Inl (HTTPException 400 ''Only CSV files are supported for now.''), fs)
         else
           (let dest_path = path_join (UPLOADS_DIR proj) filename
            in if fs dest_path = Some Dir then (Inl (IsADirectoryError dest_path), fs)
               else
                 (let fs1 = fs(dest_path \<mapsto> File (Raw body))
                  in case copy_file fs1 dest_path (current_dataset_path proj) of
                       Inl e \<Rightarrow> (Inl e, fs1)
                     | Inr fs2 \<Rightarrow> (Inr (Uploaded dest_path (current_dataset_path proj)), fs2))))"


text \<open>\<^verbatim>\<open>str(e)\<close> of the exceptions \<^verbatim>\<open>run_report\<close> can raise.\<close>

definition exn_str :: "exn \<Rightarrow> string" where
  "exn_str e =
     (case e of
        FileNotFoundError msg \<Rightarrow> msg
      | IsADirectoryError p \<Rightarrow> ''[Errno 21] Is a directory: '' @ p
      | SameFileError p \<Rightarrow> p
      | PandasError msg \<Rightarrow> msg
      | AttributeError msg \<Rightarrow> msg
      | TypeError msg \<Rightarrow> msg
      | ValueError msg \<Rightarrow> msg
      | PlotError msg \<Rightarrow> msg
      | DocumentError msg \<Rightarrow> msg
      | HTTPException status detail \<Rightarrow> detail)"

definition analyze ::
  "libraries \<Rightarrow> openai \<Rightarrow> string \<Rightarrow> filesystem \<Rightarrow> string option \<Rightarrow> (exn + response) \<times> filesystem" where
  "analyze lib ai proj fs source =
     (case run_report lib ai proj fs source False of
        (Inr result, fs') \<Rightarrow>
          (Inr (Analyzed (csv_path result) (plots result) (ai_summary result)), fs')
      | (Inl e, fs') \<Rightarrow> (Inl (HTTPException 500 (exn_str e)), fs'))"


subsection \<open>The specification's wording, for comparison\<close>


text \<open>
  The specification's resolution order, read as a chain of fallbacks: the
  explicit path if given and existing, else the current dataset if present,
  else the bundled default.
\<close>

definition resolve_as_specified :: "string \<Rightarrow> filesystem \<Rightarrow> string option \<Rightarrow> string" where
  "resolve_as_specified proj fs csv =
     (let fallback =
            (if exists fs (path_join (DATA_DIR proj) ''current_dataset.csv'')
             then path_join (DATA_DIR proj) ''current_dataset.csv''
             else path_join (DATA_DIR proj) ''netflix_titles.csv'')
      in case csv of
           Some p \<Rightarrow> (if exists fs p then p else fallback)
         | None \<Rightarrow> fallback)"

text \<open>
  An aggregate is skipped when its key is not in the returned plots mapping and
  the run leaves its chart file as it found it.
\<close>

definition skipped ::
  "string \<Rightarrow> filesystem \<Rightarrow> report_bundle \<Rightarrow> filesystem \<Rightarrow> string \<Rightarrow> string \<Rightarrow> bool" where
  "skipped proj fs b fs' key filename =
     (plots b key = None \<and>
      fs' (path_join (REPORTS_DIR proj) filename) = fs (path_join (REPORTS_DIR proj) filename))"


text \<open>
  The labels the pipeline looks up, and a table in which none of them, once
  stripped, names more than one column.
\<close>

definition used_labels :: "ustring list" where
  "used_labels = map ustr [''listed_in'', ''director'', ''rating'', ''release_year'', ''type'',
                           ''duration'', ''duration_num'']"

definition unambiguous :: "libraries \<Rightarrow> dataframe \<Rightarrow> bool" where
  "unambiguous lib df = list_all (\<lambda>l. \<not> ambiguous (strip_columns lib df) l) used_labels"

text \<open>
  Nothing else stands in the way of the outputs: no figure fails to draw, no
  chart or document path is a directory, and every narrative can be typeset.
\<close>

definition charts_writable :: "libraries \<Rightarrow> string \<Rightarrow> filesystem \<Rightarrow> bool" where
  "charts_writable lib proj fs =
     ((\<forall>fig. savefig_error lib fig = None) \<and>
      list_all (\<lambda>f. fs (path_join (REPORTS_DIR proj) f) \<noteq> Some Dir) chart_files)"

definition document_paths_free :: "string \<Rightarrow> filesystem \<Rightarrow> bool" where
  "document_paths_free proj fs =
     (fs (pdf_path proj) \<noteq> Some Dir \<and> fs (ppt_path proj) \<noteq> Some Dir)"

definition typesets :: "libraries \<Rightarrow> bool" where
  "typesets lib = (\<forall>s. pdf_accepts lib s \<and> pptx_accepts lib s)"

subsection \<open>Concrete inputs\<close>

definition two_rows :: dataframe where
  "two_rows =
     [(ustr ''type'', [Str (ustr ''Movie''), Str (ustr ''TV Show'')]),
      (ustr ''listed_in'', [Str (ustr ''Drama, Comedy''), Str (ustr ''Drama'')]),
      (ustr ''rating'', [Str (ustr ''PG-13''), Str (ustr ''TV-MA'')]),
      (ustr ''release_year'', [Num 2020, Num 2021]),
      (ustr ''duration'', [Str (ustr ''90 min''), Str (ustr ''2 Seasons'')])]"


definition ratings_with_gap :: dataframe where
  "ratings_with_gap =
     [(ustr ''rating'', [Str (ustr ''PG''), NaN, Str (ustr ''PG''), Str (ustr ''R'')])]"

definition only_current :: filesystem where
  "only_current = [''/app/data/current_dataset.csv'' \<mapsto> File (Raw ''type,rating'')]"

definition old_reports :: filesystem where
  "old_reports =
     [''/app/data/current_dataset.csv'' \<mapsto> File (Raw ''type,rating''),
      ''/app/reports/netflix_report.pdf'' \<mapsto> File (Raw ''old pdf'')]"

definition reads_as :: "dataframe \<Rightarrow> libraries" where
  "reads_as df =
     \<lparr>unicode_decimal = (\<lambda>c. None), unicode_space = (\<lambda>c. False),
      read_csv = (\<lambda>c. Inr df), to_numeric = (\<lambda>vs. vs), float_str = (\<lambda>x. []),
      savefig_error = (\<lambda>fig. None), pdf_accepts = (\<lambda>s. True), pptx_accepts = (\<lambda>s. True)\<rparr>"

definition client_absent :: openai where
  "client_absent = \<lparr>AI_ENABLED = False, chat_create = (\<lambda>p. Inl ''no client'')\<rparr>"


section \<open>Verified properties\<close>

subsection \<open>Facts about the modelled operations\<close>

declare bit_length.simps [simp del]

lemma bit_length_le: "n < 2 ^ k \<Longrightarrow> bit_length n \<le> k"
proof (induction k arbitrary: n)
  case 0
  then show ?case by (simp add: bit_length.simps)
next
  case (Suc k)
  show ?case
  proof (cases "n = 0")
    case True
    then show ?thesis by (simp add: bit_length.simps)
  next
    case False
    from Suc.prems have "n div 2 < 2 ^ k" by simp
    then have "bit_length (n div 2) \<le> k" by (rule Suc.IH)
    with False show ?thesis by (subst bit_length.simps) simp
  qed
qed

lemma bit_length_ge: "2 ^ k \<le> n \<Longrightarrow> k < bit_length n"
proof (induction k arbitrary: n)
  case 0
  then show ?case by (subst bit_length.simps) simp
next
  case (Suc k)
  then have "2 ^ k \<le> n div 2" by simp
  then have "k < bit_length (n div 2)" by (rule Suc.IH)
  moreover have "(0::nat) < 2 ^ Suc k" by simp
  then have "n \<noteq> 0" using Suc.prems by linarith
  ultimately show ?case by (subst bit_length.simps) simp
qed

lemma bit_length_eq: "2 ^ k \<le> n \<Longrightarrow> n < 2 ^ Suc k \<Longrightarrow> bit_length n = Suc k"
  using bit_length_le [of n "Suc k"] bit_length_ge [of k n] by simp

lemma float64_exact: "n \<le> 2 ^ 53 \<Longrightarrow> float64_of_nat n = Flt (real n)"
proof (cases "n = 2 ^ 53")
  case True
  have b: "bit_length ((2::nat) ^ 53) = Suc 53" by (rule bit_length_eq) simp_all
  have "(2::nat) ^ 54 < 2 ^ 1024" by (rule power_strict_increasing) simp_all
  then show ?thesis unfolding True float64_of_nat_def b Let_def by simp
next
  case False
  assume "n \<le> 2 ^ 53"
  with False have "n < 2 ^ 53" by simp
  then have b: "bit_length n - 53 = 0" using bit_length_le [of n 53] by simp
  have "(2::nat) ^ 53 < 2 ^ 1024" by (rule power_strict_increasing) simp_all
  with \<open>n < 2 ^ 53\<close> have "\<not> 2 ^ 1024 \<le> n" by simp
  then show ?thesis unfolding float64_of_nat_def b Let_def by simp
qed


lemma ustr_eq: "(ustr a = ustr b) = (a = b)"
  by (simp add: ustr_def inj_map_eq_map inj_on_def)

lemma value_counts_sorted: "sorted_wrt (\<lambda>a b. snd b \<le> snd a) (value_counts xs)"
proof -
  let ?f = "\<lambda>p :: cell \<times> nat. - int (snd p)"
  have "sorted (map ?f (value_counts xs))"
    unfolding value_counts_def Let_def by (rule sorted_sort_key)
  then have "sorted_wrt (\<lambda>a b. ?f a \<le> ?f b) (value_counts xs)"
    by (simp add: sorted_wrt_map)
  then show ?thesis by simp
qed

lemma head_sorted: "sorted_wrt P xs \<Longrightarrow> sorted_wrt P (head n xs)"
  unfolding head_def by (rule sorted_wrt_take)

lemma top_genres_sorted: "sorted_wrt (\<lambda>a b. snd b \<le> snd a) (top_genres lib df)"
  by (simp add: top_genres_def head_sorted value_counts_sorted split: option.splits)

lemma top_directors_sorted: "sorted_wrt (\<lambda>a b. snd b \<le> snd a) (top_directors df)"
  by (simp add: top_directors_def head_sorted value_counts_sorted split: option.splits)

lemma top_genres_length: "length (top_genres lib df) \<le> 10"
  by (simp add: top_genres_def head_def split: option.splits)

lemma top_directors_length: "length (top_directors df) \<le> 10"
  by (simp add: top_directors_def head_def split: option.splits)

lemma uniques_set: "set (uniques xs) = set xs"
  by (simp add: uniques_def)

lemma uniques_distinct: "distinct (uniques xs)"
  by (simp add: uniques_def)

lemma distinct_fst_sort_key:
  "distinct (map fst xs) \<Longrightarrow> distinct (map fst (sort_key f xs))"
  by (simp add: distinct_map)

lemma map_of_sort_key:
  assumes "distinct (map fst xs)"
  shows "map_of (sort_key f xs) = map_of xs"
proof (rule map_of_inject_set [THEN iffD2])
  show "distinct (map fst (sort_key f xs))"
    using assms by (rule distinct_fst_sort_key)
  show "distinct (map fst xs)" by (rule assms)
  show "set (sort_key f xs) = set xs" by simp
qed

lemma value_counts_distinct: "distinct (map fst (value_counts xs))"
proof -
  let ?ps = "map (\<lambda>v. (v, count_list (dropna xs) v)) (uniques (dropna xs))"
  have "distinct (map fst ?ps)" by (simp add: comp_def uniques_distinct)
  then have "distinct (map fst (sort_key (\<lambda>p. - int (snd p)) ?ps))"
    by (rule distinct_fst_sort_key)
  then show ?thesis by (simp add: value_counts_def Let_def)
qed

lemma map_of_value_counts:
  "map_of (value_counts xs) v =
     (if v \<in> set xs \<and> v \<noteq> NaN then Some (count_list xs v) else None)"
proof -
  let ?vs = "dropna xs"
  let ?ps = "map (\<lambda>v. (v, count_list ?vs v)) (uniques ?vs)"
  have d: "distinct (map fst ?ps)" by (simp add: comp_def uniques_distinct)
  have "map_of (value_counts xs) = map_of ?ps"
    unfolding value_counts_def Let_def using d by (rule map_of_sort_key)
  moreover have "map_of ?ps v = (if v \<in> set ?vs then Some (count_list ?vs v) else None)"
    by (simp add: map_of_map_restrict restrict_map_def uniques_set)
  moreover have "v \<noteq> NaN \<Longrightarrow> count_list ?vs v = count_list xs v"
    unfolding dropna_def by (induction xs) auto
  moreover have "v \<in> set ?vs \<longleftrightarrow> v \<in> set xs \<and> v \<noteq> NaN"
    by (auto simp: dropna_def)
  ultimately show ?thesis by simp
qed

lemma prepare_two_rows:
  "prepare lib two_rows =
     Inr [(ustr ''type'', [Str (ustr ''Movie''), Str (ustr ''TV Show'')]),
          (ustr ''listed_in'', [Str (ustr ''Drama, Comedy''), Str (ustr ''Drama'')]),
          (ustr ''rating'', [Str (ustr ''PG-13''), Str (ustr ''TV-MA'')]),
          (ustr ''release_year'', to_numeric lib [Num 2020, Num 2021]),
          (ustr ''duration'', [Str (ustr ''90 min''), Str (ustr ''2 Seasons'')]),
          (ustr ''duration_num'', [Flt 90, Flt 2])]"
proof -
  have f: "float64_of_nat 90 = Flt 90" "float64_of_nat 2 = Flt 2"
    using float64_exact [of 90] float64_exact [of 2] by simp_all
  have d: "duration_num_of lib (Str (ustr ''90 min'')) = Flt 90"
      "duration_num_of lib (Str (ustr ''2 Seasons'')) = Flt 2"
    by (simp_all add: duration_num_of_def extract_digits_def astype_str_def is_digit_def
        nat_of_digits_def digit_val_def ustr_def f)
  have s: "strip_columns lib two_rows = two_rows"
    by (simp add: two_rows_def strip_columns_def strip_def is_space_def ustr_def)
  show ?thesis
    unfolding prepare_def s
    by (simp add: two_rows_def and_then_def add_duration_num_def coerce_release_year_def
        column_def ambiguous_def set_column_def ustr_eq d)
qed

lemma and_then_Inr [simp]: "and_then (Inr x) f = f x"
  by (simp add: and_then_def)

lemma and_then_Inl [simp]: "and_then (Inl e) f = Inl e"
  by (simp add: and_then_def)

lemma returns_Inr [simp]: "returns (Inr x) P = P x"
  by (simp add: returns_def)

lemma returns_Inl [simp]: "returns (Inl e) P = False"
  by (simp add: returns_def)

lemma returns_bind:
  assumes "returns m I" and "\<And>y. I y \<Longrightarrow> returns (f y) Q"
  shows "returns (and_then m f) Q"
  using assms by (cases m) simp_all

lemma returns_result: "returns r P \<Longrightarrow> \<exists>x. r = Inr x \<and> P x"
  by (cases r) simp_all

lemma raised_step:
  assumes "raised m \<noteq> Some e" and "\<And>y. raised (f y) \<noteq> Some e"
  shows "raised (and_then m f) \<noteq> Some e"
  using assms by (cases m) (simp_all add: raised_def)

lemma frame_step:
  assumes "outcome_fs m q = fs q"
    and "\<And>st. snd st q = fs q \<Longrightarrow> outcome_fs (f st) q = fs q"
  shows "outcome_fs (and_then m f) q = fs q"
proof (cases m)
  case (Inl x)
  with assms(1) show ?thesis by simp
next
  case (Inr st)
  with assms(1) have "snd st q = fs q" by (simp add: outcome_fs_def)
  then have "outcome_fs (f st) q = fs q" by (rule assms(2))
  with Inr show ?thesis by simp
qed

lemma path_join_inject:
  "b \<noteq> [] \<Longrightarrow> hd b \<noteq> CHR ''/'' \<Longrightarrow> c \<noteq> [] \<Longrightarrow> hd c \<noteq> CHR ''/'' \<Longrightarrow>
   (path_join a b = path_join a c) = (b = c)"
  by (simp add: path_join_def)

lemma store_plot_eq:
  "store_plot lib proj key filename fig st =
     (case savefig_error lib fig of
        Some msg \<Rightarrow> Inl (PlotError msg, snd st)
      | None \<Rightarrow>
          (if snd st (path_join (REPORTS_DIR proj) filename) = Some Dir
           then Inl (IsADirectoryError (path_join (REPORTS_DIR proj) filename), snd st)
           else Inr ((fst st)(key \<mapsto> path_join (REPORTS_DIR proj) filename),
                     (snd st)(path_join (REPORTS_DIR proj) filename \<mapsto> File (Png fig)))))"
  by (simp add: store_plot_def save_plot_def write_file_def Let_def split: option.splits)

lemmas plot_defs = plot_top_genres_def plot_top_directors_def plot_rating_distribution_def
  plot_titles_per_year_def plot_type_count_def plot_avg_duration_def

lemma plot_files_frame:
  "q \<noteq> path_join (REPORTS_DIR proj) ''top_genres.png'' \<Longrightarrow>
     outcome_fs (plot_top_genres lib proj df st) q = snd st q"
  "q \<noteq> path_join (REPORTS_DIR proj) ''top_directors.png'' \<Longrightarrow>
     outcome_fs (plot_top_directors lib proj df st) q = snd st q"
  "q \<noteq> path_join (REPORTS_DIR proj) ''rating_distribution.png'' \<Longrightarrow>
     outcome_fs (plot_rating_distribution lib proj df st) q = snd st q"
  "q \<noteq> path_join (REPORTS_DIR proj) ''titles_per_year.png'' \<Longrightarrow>
     outcome_fs (plot_titles_per_year lib proj df st) q = snd st q"
  "q \<noteq> path_join (REPORTS_DIR proj) ''type_count.png'' \<Longrightarrow>
     outcome_fs (plot_type_count lib proj df st) q = snd st q"
  "q \<noteq> path_join (REPORTS_DIR proj) ''avg_movie_duration.png'' \<Longrightarrow>
     outcome_fs (plot_avg_duration lib proj df st) q = snd st q"
  by (simp_all add: plot_defs store_plot_eq outcome_fs_def split: option.splits)

lemma plot_raised:
  "raised (plot_top_genres lib proj df st) \<noteq> Some (FileNotFoundError m)"
  "raised (plot_top_directors lib proj df st) \<noteq> Some (FileNotFoundError m)"
  "raised (plot_rating_distribution lib proj df st) \<noteq> Some (FileNotFoundError m)"
  "raised (plot_titles_per_year lib proj df st) \<noteq> Some (FileNotFoundError m)"
  "raised (plot_type_count lib proj df st) \<noteq> Some (FileNotFoundError m)"
  "raised (plot_avg_duration lib proj df st) \<noteq> Some (FileNotFoundError m)"
  by (simp_all add: plot_defs store_plot_eq raised_def split: option.splits)

lemma render_charts_files:
  assumes "q \<notin> set (map (path_join (REPORTS_DIR proj)) chart_files)"
  shows "outcome_fs (render_charts lib proj df fs) q = fs q"
proof -
  from assms have n:
    "q \<noteq> path_join (REPORTS_DIR proj) ''top_genres.png''"
    "q \<noteq> path_join (REPORTS_DIR proj) ''top_directors.png''"
    "q \<noteq> path_join (REPORTS_DIR proj) ''rating_distribution.png''"
    "q \<noteq> path_join (REPORTS_DIR proj) ''titles_per_year.png''"
    "q \<noteq> path_join (REPORTS_DIR proj) ''type_count.png''"
    "q \<noteq> path_join (REPORTS_DIR proj) ''avg_movie_duration.png''"
    by (auto simp: chart_files_def)
  show ?thesis
    unfolding render_charts_def
    by (intro frame_step) (simp_all add: plot_files_frame n)
qed

lemma render_charts_raised:
  "raised (render_charts lib proj df fs) \<noteq> Some (FileNotFoundError m)"
  unfolding render_charts_def by (intro raised_step plot_raised)

lemma plot_returns:
  assumes "\<forall>fig. savefig_error lib fig = None"
  shows
  "\<lbrakk>\<not> ambiguous df (ustr ''listed_in'');
    snd st (path_join (REPORTS_DIR proj) ''top_genres.png'') \<noteq> Some Dir;
    top_genres lib df = [] \<Longrightarrow> P st;
    \<And>fig. top_genres lib df \<noteq> [] \<Longrightarrow>
      P ((fst st)(''top_genres'' \<mapsto> path_join (REPORTS_DIR proj) ''top_genres.png''),
         (snd st)(path_join (REPORTS_DIR proj) ''top_genres.png'' \<mapsto> File (Png fig)))\<rbrakk>
   \<Longrightarrow> returns (plot_top_genres lib proj df st) P"
  "\<lbrakk>\<not> ambiguous df (ustr ''director'');
    snd st (path_join (REPORTS_DIR proj) ''top_directors.png'') \<noteq> Some Dir;
    top_directors df = [] \<Longrightarrow> P st;
    \<And>fig. top_directors df \<noteq> [] \<Longrightarrow>
      P ((fst st)(''top_directors'' \<mapsto> path_join (REPORTS_DIR proj) ''top_directors.png''),
         (snd st)(path_join (REPORTS_DIR proj) ''top_directors.png'' \<mapsto> File (Png fig)))\<rbrakk>
   \<Longrightarrow> returns (plot_top_directors lib proj df st) P"
  "\<lbrakk>\<not> ambiguous df (ustr ''rating'');
    snd st (path_join (REPORTS_DIR proj) ''rating_distribution.png'') \<noteq> Some Dir;
    rating_counts df = [] \<Longrightarrow> P st;
    \<And>fig. rating_counts df \<noteq> [] \<Longrightarrow>
      P ((fst st)(''rating_distribution'' \<mapsto>
            path_join (REPORTS_DIR proj) ''rating_distribution.png''),
         (snd st)(path_join (REPORTS_DIR proj) ''rating_distribution.png'' \<mapsto> File (Png fig)))\<rbrakk>
   \<Longrightarrow> returns (plot_rating_distribution lib proj df st) P"
  "\<lbrakk>\<not> ambiguous df (ustr ''release_year'');
    snd st (path_join (REPORTS_DIR proj) ''titles_per_year.png'') \<noteq> Some Dir;
    per_year df = [] \<Longrightarrow> P st;
    \<And>fig. per_year df \<noteq> [] \<Longrightarrow>
      P ((fst st)(''titles_per_year'' \<mapsto> path_join (REPORTS_DIR proj) ''titles_per_year.png''),
         (snd st)(path_join (REPORTS_DIR proj) ''titles_per_year.png'' \<mapsto> File (Png fig)))\<rbrakk>
   \<Longrightarrow> returns (plot_titles_per_year lib proj df st) P"
  "\<lbrakk>\<not> ambiguous df (ustr ''type'');
    snd st (path_join (REPORTS_DIR proj) ''type_count.png'') \<noteq> Some Dir;
    type_counts df = [] \<Longrightarrow> P st;
    \<And>fig. type_counts df \<noteq> [] \<Longrightarrow>
      P ((fst st)(''type_count'' \<mapsto> path_join (REPORTS_DIR proj) ''type_count.png''),
         (snd st)(path_join (REPORTS_DIR proj) ''type_count.png'' \<mapsto> File (Png fig)))\<rbrakk>
   \<Longrightarrow> returns (plot_type_count lib proj df st) P"
  "\<lbrakk>\<not> ambiguous df (ustr ''type'');
    snd st (path_join (REPORTS_DIR proj) ''avg_movie_duration.png'') \<noteq> Some Dir;
    avg_duration df = [] \<Longrightarrow> P st;
    \<And>fig. avg_duration df \<noteq> [] \<Longrightarrow>
      P ((fst st)(''avg_movie_duration'' \<mapsto>
            path_join (REPORTS_DIR proj) ''avg_movie_duration.png''),
         (snd st)(path_join (REPORTS_DIR proj) ''avg_movie_duration.png'' \<mapsto> File (Png fig)))\<rbrakk>
   \<Longrightarrow> returns (plot_avg_duration lib proj df st) P"
  using assms
  by (auto simp: plot_defs store_plot_eq top_genres_def top_directors_def rating_counts_def
      per_year_def type_counts_def avg_duration_def split: option.splits)

lemma splitext_ext_drop: "\<exists>n. splitext_ext p = drop n p"
proof (cases "splitext_ext p = []")
  case True
  then have "splitext_ext p = drop (length p) p" by simp
  then show ?thesis by blast
next
  case False
  then show ?thesis unfolding splitext_ext_def Let_def by (auto split: if_splits)
qed

lemma splitext_ext_suffix: "suffix (lower (splitext_ext p)) (lower p)"
proof -
  obtain n where "splitext_ext p = drop n p" using splitext_ext_drop by blast
  then have "lower (splitext_ext p) = drop n (lower p)" by (simp add: lower_def drop_map)
  then show ?thesis by (simp add: suffix_drop)
qed

lemma load_csv_not_missing:
  "exists fs p \<Longrightarrow> load_csv lib fs p \<noteq> Inl (FileNotFoundError m)"
  by (auto simp: load_csv_def exists_def split: option.splits node.splits sum.splits)

lemma load_csv_exists: "load_csv lib fs p = Inr df \<Longrightarrow> exists fs p"
  by (auto simp: load_csv_def exists_def split: option.splits)

lemma prepare_not_missing: "prepare lib df \<noteq> Inl (FileNotFoundError m)"
  by (auto simp: prepare_def add_duration_num_def coerce_release_year_def and_then_def
      split: option.splits sum.splits if_splits)

lemma write_documents_raised:
  "raised (write_documents lib proj s pf fs) \<noteq> Some (FileNotFoundError m)"
  by (simp add: write_documents_def write_file_def Let_def raised_def)


lemma run_report_missing:
  "\<not> exists fs (resolve_csv proj fs csv) \<Longrightarrow>
   run_report lib ai proj fs csv g =
     (Inl (FileNotFoundError (''CSV file not found: '' @ resolve_csv proj fs csv)), fs)"
  by (simp add: run_report_def Let_def)

lemma run_report_present:
  assumes "exists fs (resolve_csv proj fs csv)"
  shows "fst (run_report lib ai proj fs csv g) \<noteq> Inl (FileNotFoundError m)"
proof -
  have r: "render_charts lib proj df fs = Inl (e, f) \<Longrightarrow> e \<noteq> FileNotFoundError m" for df e f
    using render_charts_raised [of lib proj df fs m] by (auto simp: raised_def)
  have w: "write_documents lib proj s pf f0 = Inl (e, f) \<Longrightarrow> e \<noteq> FileNotFoundError m"
    for s pf f0 e f
    using write_documents_raised [of lib proj s pf f0 m] by (auto simp: raised_def)
  show ?thesis
    using assms load_csv_not_missing [of fs "resolve_csv proj fs csv" lib m]
      prepare_not_missing [of lib _ m]
    by (auto simp: run_report_def Let_def split: sum.splits prod.splits dest: r w)
qed

lemma run_report_csv_path:
  "fst (run_report lib ai proj fs csv g) = Inr b \<Longrightarrow> csv_path b = resolve_csv proj fs csv"
  by (auto simp: run_report_def Let_def split: sum.splits prod.splits if_splits)

lemma run_report_no_documents:
  assumes "q \<notin> set (map (path_join (REPORTS_DIR proj)) chart_files)"
  shows "snd (run_report lib ai proj fs csv False) q = fs q"
proof -
  have f: "render_charts lib proj df fs = Inl (e, f) \<Longrightarrow> f q = fs q" for df e f
    using render_charts_files [OF assms, of lib df fs] by (simp add: outcome_fs_def)
  have s: "render_charts lib proj df fs = Inr st \<Longrightarrow> snd st q = fs q" for df st
    using render_charts_files [OF assms, of lib df fs] by (simp add: outcome_fs_def)
  show ?thesis
    by (auto simp: run_report_def Let_def split: sum.splits prod.splits dest: f s)
qed

lemma run_report_no_document_paths:
  "fst (run_report lib ai proj fs csv False) = Inr b \<Longrightarrow> pdf_file b = None \<and> ppt_file b = None"
  by (auto simp: run_report_def Let_def split: sum.splits prod.splits if_splits)

lemma analyze_snd: "snd (analyze lib ai proj fs csv) = snd (run_report lib ai proj fs csv False)"
  by (simp add: analyze_def split: prod.splits sum.splits)

lemma document_paths_not_charts:
  "pdf_path proj \<notin> set (map (path_join (REPORTS_DIR proj)) chart_files)"
  "ppt_path proj \<notin> set (map (path_join (REPORTS_DIR proj)) chart_files)"
  "pdf_path proj \<noteq> ppt_path proj"
  by (simp_all add: pdf_path_def ppt_path_def chart_files_def path_join_inject)

lemma names_set_column:
  "map fst (set_column df n vs) =
     (if n \<in> set (map fst df) then map fst df else map fst df @ [n])"
proof -
  have "map fst (map (\<lambda>(k, c). if k = n then (k, vs) else (k, c)) df) = map fst df"
    by (induction df) auto
  then show ?thesis by (simp add: set_column_def)
qed

lemma ambiguous_set_column: "ambiguous (set_column df n vs) l = ambiguous df l"
proof (cases "n \<in> set (map fst df)")
  case True
  then show ?thesis by (simp add: ambiguous_def names_set_column)
next
  case False
  then have z: "count_list (map fst df) n = 0" by (simp add: count_list_0_iff)
  show ?thesis
  proof (cases "l = n")
    case True
    with False z show ?thesis by (simp add: ambiguous_def names_set_column)
  next
    case False
    with \<open>n \<notin> set (map fst df)\<close> show ?thesis by (simp add: ambiguous_def names_set_column)
  qed
qed

lemma column_set_column_same: "column (set_column df n vs) n = Some vs"
proof (cases "n \<in> set (map fst df)")
  case True
  then have "map_of (map (\<lambda>(k, c). if k = n then (k, vs) else (k, c)) df) n = Some vs"
    by (induction df) auto
  with True show ?thesis by (simp add: column_def set_column_def)
next
  case False
  then have "map_of df n = None" by (simp add: map_of_eq_None_iff)
  with False show ?thesis by (simp add: column_def set_column_def map_add_def)
qed

lemma column_set_column_other: "m \<noteq> n \<Longrightarrow> column (set_column df n vs) m = column df m"
proof -
  assume h: "m \<noteq> n"
  have "map_of (map (\<lambda>(k, c). if k = n then (k, vs) else (k, c)) df) m = map_of df m"
    using h by (induction df) auto
  with h show ?thesis
    by (simp add: column_def set_column_def map_add_def split: option.splits)
qed

lemma nrows_strip_columns: "nrows (strip_columns lib df) = nrows df"
  by (cases df) (auto simp: nrows_def strip_columns_def)

lemma add_duration_num_cases:
  "add_duration_num lib df =
     (if column df (ustr ''duration'') \<noteq> None \<and> ambiguous df (ustr ''duration'')
      then Inl (AttributeError (quoted ''DataFrame'' @ '' object has no attribute '' @ quoted ''str''))
      else if column df (ustr ''duration'') \<noteq> None \<and> ambiguous df (ustr ''duration_num'')
      then Inl (ValueError ''Columns must be same length as key'')
      else Inr (set_column df (ustr ''duration_num'')
                  (case column df (ustr ''duration'') of
                     Some col \<Rightarrow> map (duration_num_of lib) col
                   | None \<Rightarrow> replicate (nrows df) NaN)))"
  by (simp add: add_duration_num_def split: option.splits)

lemma coerce_release_year_cases:
  "coerce_release_year lib df =
     (if column df (ustr ''release_year'') \<noteq> None \<and> ambiguous df (ustr ''release_year'')
      then Inl (TypeError ''arg must be a list, tuple, 1-d array, or Series'')
      else Inr (case column df (ustr ''release_year'') of
                  Some col \<Rightarrow> set_column df (ustr ''release_year'') (to_numeric lib col)
                | None \<Rightarrow> df))"
  by (simp add: coerce_release_year_def split: option.splits)

lemma prepare_facts:
  assumes "prepare lib df0 = Inr df"
  shows "ambiguous df l = ambiguous (strip_columns lib df0) l"
    and "c \<noteq> ustr ''duration_num'' \<Longrightarrow>
         (column df c = None) = (column (strip_columns lib df0) c = None)"
    and "column df (ustr ''duration_num'') =
         Some (case column (strip_columns lib df0) (ustr ''duration'') of
                 Some col \<Rightarrow> map (duration_num_of lib) col
               | None \<Rightarrow> replicate (nrows df0) NaN)"
    and "add_duration_num lib (strip_columns lib df0) =
         Inr (set_column (strip_columns lib df0) (ustr ''duration_num'')
                (case column (strip_columns lib df0) (ustr ''duration'') of
                   Some col \<Rightarrow> map (duration_num_of lib) col
                 | None \<Rightarrow> replicate (nrows df0) NaN))"
proof -
  let ?s = "strip_columns lib df0"
  let ?v = "case column ?s (ustr ''duration'') of
              Some col \<Rightarrow> map (duration_num_of lib) col
            | None \<Rightarrow> replicate (nrows df0) NaN"
  let ?d = "set_column ?s (ustr ''duration_num'') ?v"
  from assms have a: "add_duration_num lib ?s = Inr ?d"
    by (auto simp: prepare_def and_then_def add_duration_num_cases nrows_strip_columns
        split: sum.splits if_splits cong: option.case_cong)
  with assms have c: "coerce_release_year lib ?d = Inr df"
    by (simp add: prepare_def)
  then have d: "df = (case column ?d (ustr ''release_year'') of
                  Some col \<Rightarrow> set_column ?d (ustr ''release_year'') (to_numeric lib col)
                | None \<Rightarrow> ?d)"
    by (auto simp: coerce_release_year_cases split: if_splits)
  show "ambiguous df l = ambiguous ?s l"
    unfolding d by (simp add: ambiguous_set_column split: option.splits)
  show "add_duration_num lib ?s = Inr ?d" by (rule a)
  show "column df (ustr ''duration_num'') = Some ?v"
    unfolding d
    by (simp add: column_set_column_same column_set_column_other ustr_eq split: option.splits)
  show "(column df c = None) = (column ?s c = None)" if "c \<noteq> ustr ''duration_num''"
  proof (cases "c = ustr ''release_year''")
    case True
    show ?thesis unfolding d True
      by (simp add: column_set_column_same column_set_column_other ustr_eq split: option.splits)
  next
    case False
    with that show ?thesis unfolding d
      by (simp add: column_set_column_other split: option.splits)
  qed
qed

lemma unambiguous_labels:
  "unambiguous lib df =
     (\<not> ambiguous (strip_columns lib df) (ustr ''listed_in'') \<and>
      \<not> ambiguous (strip_columns lib df) (ustr ''director'') \<and>
      \<not> ambiguous (strip_columns lib df) (ustr ''rating'') \<and>
      \<not> ambiguous (strip_columns lib df) (ustr ''release_year'') \<and>
      \<not> ambiguous (strip_columns lib df) (ustr ''type'') \<and>
      \<not> ambiguous (strip_columns lib df) (ustr ''duration'') \<and>
      \<not> ambiguous (strip_columns lib df) (ustr ''duration_num''))"
  by (simp add: unambiguous_def used_labels_def)

lemma prepare_returns:
  assumes "unambiguous lib df0"
  shows "\<exists>df. prepare lib df0 = Inr df"
  using assms
  by (simp add: unambiguous_labels prepare_def add_duration_num_cases coerce_release_year_cases
      ambiguous_set_column)

lemma write_documents_returns:
  assumes "s = [] \<or> (pdf_accepts lib s \<and> pptx_accepts lib s)"
    and "fs (pdf_path proj) \<noteq> Some Dir" and "fs (ppt_path proj) \<noteq> Some Dir"
  shows "write_documents lib proj s pf fs =
     Inr (fs(pdf_path proj \<mapsto> File (PdfFile (PdfDoc ''Netflix Analysis Report''
                 (narrative_block s) (List.map_filter pf plot_keys))),
             ppt_path proj \<mapsto> File (PptxFile (Deck ''Executive Summary''
                 (narrative_block s) (List.map_filter pf plot_keys)))))"
  using assms document_paths_not_charts(3) [of proj]
  by (auto simp: write_documents_def write_file_def Let_def)

lemma render_charts_inv:
  assumes sv: "\<forall>fig. savefig_error lib fig = None"
    and amb: "\<not> ambiguous df (ustr ''listed_in'')" "\<not> ambiguous df (ustr ''director'')"
      "\<not> ambiguous df (ustr ''rating'')" "\<not> ambiguous df (ustr ''release_year'')"
      "\<not> ambiguous df (ustr ''type'')"
    and init: "Inv (Map.empty, fs)"
    and dir: "\<And>st f. Inv st \<Longrightarrow> f \<in> set chart_files \<Longrightarrow>
               snd st (path_join (REPORTS_DIR proj) f) \<noteq> Some Dir"
    and s1: "\<And>st fig. Inv st \<Longrightarrow> top_genres lib df \<noteq> [] \<Longrightarrow>
      Inv ((fst st)(''top_genres'' \<mapsto> path_join (REPORTS_DIR proj) ''top_genres.png''),
           (snd st)(path_join (REPORTS_DIR proj) ''top_genres.png'' \<mapsto> File (Png fig)))"
    and s2: "\<And>st fig. Inv st \<Longrightarrow> top_directors df \<noteq> [] \<Longrightarrow>
      Inv ((fst st)(''top_directors'' \<mapsto> path_join (REPORTS_DIR proj) ''top_directors.png''),
           (snd st)(path_join (REPORTS_DIR proj) ''top_directors.png'' \<mapsto> File (Png fig)))"
    and s3: "\<And>st fig. Inv st \<Longrightarrow> rating_counts df \<noteq> [] \<Longrightarrow>
      Inv ((fst st)(''rating_distribution'' \<mapsto>
              path_join (REPORTS_DIR proj) ''rating_distribution.png''),
           (snd st)(path_join (REPORTS_DIR proj) ''rating_distribution.png'' \<mapsto> File (Png fig)))"
    and s4: "\<And>st fig. Inv st \<Longrightarrow> per_year df \<noteq> [] \<Longrightarrow>
      Inv ((fst st)(''titles_per_year'' \<mapsto> path_join (REPORTS_DIR proj) ''titles_per_year.png''),
           (snd st)(path_join (REPORTS_DIR proj) ''titles_per_year.png'' \<mapsto> File (Png fig)))"
    and s5: "\<And>st fig. Inv st \<Longrightarrow> type_counts df \<noteq> [] \<Longrightarrow>
      Inv ((fst st)(''type_count'' \<mapsto> path_join (REPORTS_DIR proj) ''type_count.png''),
           (snd st)(path_join (REPORTS_DIR proj) ''type_count.png'' \<mapsto> File (Png fig)))"
    and s6: "\<And>st fig. Inv st \<Longrightarrow> avg_duration df \<noteq> [] \<Longrightarrow>
      Inv ((fst st)(''avg_movie_duration'' \<mapsto>
              path_join (REPORTS_DIR proj) ''avg_movie_duration.png''),
           (snd st)(path_join (REPORTS_DIR proj) ''avg_movie_duration.png'' \<mapsto> File (Png fig)))"
  shows "returns (render_charts lib proj df fs) Inv"
proof -
  have b1: "returns (plot_top_genres lib proj df st) Inv" if "Inv st" for st
    by (rule plot_returns(1) [OF sv amb(1)])
      (use that dir [of st "''top_genres.png''"] s1 [of st] in \<open>auto simp: chart_files_def\<close>)
  have b2: "returns (plot_top_directors lib proj df st) Inv" if "Inv st" for st
    by (rule plot_returns(2) [OF sv amb(2)])
      (use that dir [of st "''top_directors.png''"] s2 [of st] in \<open>auto simp: chart_files_def\<close>)
  have b3: "returns (plot_rating_distribution lib proj df st) Inv" if "Inv st" for st
    by (rule plot_returns(3) [OF sv amb(3)])
      (use that dir [of st "''rating_distribution.png''"] s3 [of st] in
        \<open>auto simp: chart_files_def\<close>)
  have b4: "returns (plot_titles_per_year lib proj df st) Inv" if "Inv st" for st
    by (rule plot_returns(4) [OF sv amb(4)])
      (use that dir [of st "''titles_per_year.png''"] s4 [of st] in \<open>auto simp: chart_files_def\<close>)
  have b5: "returns (plot_type_count lib proj df st) Inv" if "Inv st" for st
    by (rule plot_returns(5) [OF sv amb(5)])
      (use that dir [of st "''type_count.png''"] s5 [of st] in \<open>auto simp: chart_files_def\<close>)
  have b6: "returns (plot_avg_duration lib proj df st) Inv" if "Inv st" for st
    by (rule plot_returns(6) [OF sv amb(5)])
      (use that dir [of st "''avg_movie_duration.png''"] s6 [of st] in
        \<open>auto simp: chart_files_def\<close>)
  show ?thesis
    unfolding render_charts_def
    by (intro returns_bind [where I = Inv] b1 b2 b3 b4 b5 b6 init)
qed

lemma groupby_mean_all_missing: "groupby_mean keys (replicate n NaN) = []"
proof -
  have "filter (\<lambda>(k, v). v \<noteq> NaN \<and> k \<noteq> NaN) (zip keys (replicate n NaN)) = []"
    by (auto simp: filter_empty_conv dest: set_zip_rightD)
  then show ?thesis by (simp add: groupby_mean_def uniques_def)
qed

lemma absent_column_empty:
  assumes "prepare lib df0 = Inr df"
  shows
  "column (strip_columns lib df0) (ustr ''listed_in'') = None \<Longrightarrow> top_genres lib df = []"
  "column (strip_columns lib df0) (ustr ''director'') = None \<Longrightarrow> top_directors df = []"
  "column (strip_columns lib df0) (ustr ''rating'') = None \<Longrightarrow> rating_counts df = []"
  "column (strip_columns lib df0) (ustr ''release_year'') = None \<Longrightarrow> per_year df = []"
  "column (strip_columns lib df0) (ustr ''type'') = None \<Longrightarrow> type_counts df = []"
  "column (strip_columns lib df0) (ustr ''type'') = None \<Longrightarrow> avg_duration df = []"
  "column (strip_columns lib df0) (ustr ''duration'') = None \<Longrightarrow> avg_duration df = []"
  using prepare_facts(2) [OF assms, of "ustr ''listed_in''"]
    prepare_facts(2) [OF assms, of "ustr ''director''"]
    prepare_facts(2) [OF assms, of "ustr ''rating''"]
    prepare_facts(2) [OF assms, of "ustr ''release_year''"]
    prepare_facts(2) [OF assms, of "ustr ''type''"]
    prepare_facts(3) [OF assms]
  by (simp_all add: top_genres_def top_directors_def rating_counts_def per_year_def
      type_counts_def avg_duration_def ustr_eq groupby_mean_all_missing split: option.splits)

lemma chart_paths_distinct:
  "(path_join (REPORTS_DIR proj) ''top_genres.png'' = pdf_path proj) = False"
  "(path_join (REPORTS_DIR proj) ''top_genres.png'' = ppt_path proj) = False"
  "(path_join (REPORTS_DIR proj) ''top_directors.png'' = pdf_path proj) = False"
  "(path_join (REPORTS_DIR proj) ''top_directors.png'' = ppt_path proj) = False"
  "(path_join (REPORTS_DIR proj) ''rating_distribution.png'' = pdf_path proj) = False"
  "(path_join (REPORTS_DIR proj) ''rating_distribution.png'' = ppt_path proj) = False"
  "(path_join (REPORTS_DIR proj) ''titles_per_year.png'' = pdf_path proj) = False"
  "(path_join (REPORTS_DIR proj) ''titles_per_year.png'' = ppt_path proj) = False"
  "(path_join (REPORTS_DIR proj) ''type_count.png'' = pdf_path proj) = False"
  "(path_join (REPORTS_DIR proj) ''type_count.png'' = ppt_path proj) = False"
  "(path_join (REPORTS_DIR proj) ''avg_movie_duration.png'' = pdf_path proj) = False"
  "(path_join (REPORTS_DIR proj) ''avg_movie_duration.png'' = ppt_path proj) = False"
  by (simp_all add: pdf_path_def ppt_path_def path_join_inject)

lemma render_charts_skips:
  assumes sv: "\<forall>fig. savefig_error lib fig = None"
    and amb: "\<not> ambiguous df (ustr ''listed_in'')" "\<not> ambiguous df (ustr ''director'')"
      "\<not> ambiguous df (ustr ''rating'')" "\<not> ambiguous df (ustr ''release_year'')"
      "\<not> ambiguous df (ustr ''type'')"
    and dirs: "list_all (\<lambda>f. fs (path_join (REPORTS_DIR proj) f) \<noteq> Some Dir) chart_files"
  shows "returns (render_charts lib proj df fs) (\<lambda>st.
     (top_genres lib df = [] \<longrightarrow> fst st ''top_genres'' = None \<and>
        snd st (path_join (REPORTS_DIR proj) ''top_genres.png'') =
          fs (path_join (REPORTS_DIR proj) ''top_genres.png'')) \<and>
     (top_directors df = [] \<longrightarrow> fst st ''top_directors'' = None \<and>
        snd st (path_join (REPORTS_DIR proj) ''top_directors.png'') =
          fs (path_join (REPORTS_DIR proj) ''top_directors.png'')) \<and>
     (rating_counts df = [] \<longrightarrow> fst st ''rating_distribution'' = None \<and>
        snd st (path_join (REPORTS_DIR proj) ''rating_distribution.png'') =
          fs (path_join (REPORTS_DIR proj) ''rating_distribution.png'')) \<and>
     (per_year df = [] \<longrightarrow> fst st ''titles_per_year'' = None \<and>
        snd st (path_join (REPORTS_DIR proj) ''titles_per_year.png'') =
          fs (path_join (REPORTS_DIR proj) ''titles_per_year.png'')) \<and>
     (type_counts df = [] \<longrightarrow> fst st ''type_count'' = None \<and>
        snd st (path_join (REPORTS_DIR proj) ''type_count.png'') =
          fs (path_join (REPORTS_DIR proj) ''type_count.png'')) \<and>
     (avg_duration df = [] \<longrightarrow> fst st ''avg_movie_duration'' = None \<and>
        snd st (path_join (REPORTS_DIR proj) ''avg_movie_duration.png'') =
          fs (path_join (REPORTS_DIR proj) ''avg_movie_duration.png'')) \<and>
     list_all (\<lambda>f. snd st (path_join (REPORTS_DIR proj) f) \<noteq> Some Dir) chart_files)"
  by (rule render_charts_inv [OF sv amb])
    (use dirs in \<open>auto simp: chart_files_def path_join_inject\<close>)

lemma run_report_returns:
  assumes "load_csv lib fs (resolve_csv proj fs csv) = Inr df0"
    and "prepare lib df0 = Inr df"
    and "render_charts lib proj df fs = Inr st"
    and "g \<Longrightarrow> write_documents lib proj (make_summary lib ai df) (fst st) (snd st) = Inr fs2"
  shows "run_report lib ai proj fs csv g =
     (Inr \<lparr>csv_path = resolve_csv proj fs csv,
           pdf_file = (if g then Some (pdf_path proj) else None),
           ppt_file = (if g then Some (ppt_path proj) else None),
           ai_summary = make_summary lib ai df,
           plots = fst st\<rparr>,
      if g then fs2 else snd st)"
  using assms load_csv_exists [OF assms(1)] by (simp add: run_report_def Let_def)


lemma run_report_skips:
  assumes load: "load_csv lib fs (resolve_csv proj fs csv) = Inr df0"
    and un: "unambiguous lib df0"
    and cw: "charts_writable lib proj fs"
    and dw: "g \<longrightarrow> document_paths_free proj fs \<and> typesets lib"
  shows "\<exists>df b fs'. prepare lib df0 = Inr df \<and>
     run_report lib ai proj fs csv g = (Inr b, fs') \<and>
     (column (strip_columns lib df0) (ustr ''listed_in'') = None \<or>
      top_genres lib df = [] \<longrightarrow>
        skipped proj fs b fs' ''top_genres'' ''top_genres.png'') \<and>
     (column (strip_columns lib df0) (ustr ''director'') = None \<or>
      top_directors df = [] \<longrightarrow>
        skipped proj fs b fs' ''top_directors'' ''top_directors.png'') \<and>
     (column (strip_columns lib df0) (ustr ''rating'') = None \<or>
      rating_counts df = [] \<longrightarrow>
        skipped proj fs b fs' ''rating_distribution'' ''rating_distribution.png'') \<and>
     (column (strip_columns lib df0) (ustr ''release_year'') = None \<or>
      per_year df = [] \<longrightarrow>
        skipped proj fs b fs' ''titles_per_year'' ''titles_per_year.png'') \<and>
     (column (strip_columns lib df0) (ustr ''type'') = None \<or>
      type_counts df = [] \<longrightarrow>
        skipped proj fs b fs' ''type_count'' ''type_count.png'') \<and>
     (column (strip_columns lib df0) (ustr ''duration'') = None \<or>
      column (strip_columns lib df0) (ustr ''type'') = None \<or>
      avg_duration df = [] \<longrightarrow>
        skipped proj fs b fs' ''avg_movie_duration'' ''avg_movie_duration.png'')"
proof -
  obtain df where p: "prepare lib df0 = Inr df" using prepare_returns [OF un] by blast
  have amb: "\<not> ambiguous df (ustr ''listed_in'')" "\<not> ambiguous df (ustr ''director'')"
      "\<not> ambiguous df (ustr ''rating'')" "\<not> ambiguous df (ustr ''release_year'')"
      "\<not> ambiguous df (ustr ''type'')"
    using un by (simp_all add: prepare_facts(1) [OF p] unambiguous_labels)
  from cw have sv: "\<forall>fig. savefig_error lib fig = None"
    and dirs: "list_all (\<lambda>f. fs (path_join (REPORTS_DIR proj) f) \<noteq> Some Dir) chart_files"
    by (simp_all add: charts_writable_def)
  from returns_result [OF render_charts_skips [OF sv amb dirs]]
  obtain st where r: "render_charts lib proj df fs = Inr st"
    and i1: "top_genres lib df = [] \<longrightarrow> fst st ''top_genres'' = None \<and>
        snd st (path_join (REPORTS_DIR proj) ''top_genres.png'') =
          fs (path_join (REPORTS_DIR proj) ''top_genres.png'')"
    and i2: "top_directors df = [] \<longrightarrow> fst st ''top_directors'' = None \<and>
        snd st (path_join (REPORTS_DIR proj) ''top_directors.png'') =
          fs (path_join (REPORTS_DIR proj) ''top_directors.png'')"
    and i3: "rating_counts df = [] \<longrightarrow> fst st ''rating_distribution'' = None \<and>
        snd st (path_join (REPORTS_DIR proj) ''rating_distribution.png'') =
          fs (path_join (REPORTS_DIR proj) ''rating_distribution.png'')"
    and i4: "per_year df = [] \<longrightarrow> fst st ''titles_per_year'' = None \<and>
        snd st (path_join (REPORTS_DIR proj) ''titles_per_year.png'') =
          fs (path_join (REPORTS_DIR proj) ''titles_per_year.png'')"
    and i5: "type_counts df = [] \<longrightarrow> fst st ''type_count'' = None \<and>
        snd st (path_join (REPORTS_DIR proj) ''type_count.png'') =
          fs (path_join (REPORTS_DIR proj) ''type_count.png'')"
    and i6: "avg_duration df = [] \<longrightarrow> fst st ''avg_movie_duration'' = None \<and>
        snd st (path_join (REPORTS_DIR proj) ''avg_movie_duration.png'') =
          fs (path_join (REPORTS_DIR proj) ''avg_movie_duration.png'')"
    by blast
  have fp: "snd st (pdf_path proj) = fs (pdf_path proj)"
    using render_charts_files [where q = "pdf_path proj" and proj = proj and lib = lib and df = df
        and fs = fs, OF document_paths_not_charts(1)] r
    by (simp add: outcome_fs_def)
  have fq: "snd st (ppt_path proj) = fs (ppt_path proj)"
    using render_charts_files [where q = "ppt_path proj" and proj = proj and lib = lib and df = df
        and fs = fs, OF document_paths_not_charts(2)] r
    by (simp add: outcome_fs_def)
  let ?s = "make_summary lib ai df"
  let ?fs2 = "(snd st)(pdf_path proj \<mapsto> File (PdfFile (PdfDoc ''Netflix Analysis Report''
                 (narrative_block ?s) (List.map_filter (fst st) plot_keys))),
             ppt_path proj \<mapsto> File (PptxFile (Deck ''Executive Summary''
                 (narrative_block ?s) (List.map_filter (fst st) plot_keys))))"
  let ?b = "\<lparr>csv_path = resolve_csv proj fs csv,
           pdf_file = (if g then Some (pdf_path proj) else None),
           ppt_file = (if g then Some (ppt_path proj) else None),
           ai_summary = ?s, plots = fst st\<rparr>"
  let ?fs = "if g then ?fs2 else snd st"
  have docs: "write_documents lib proj ?s (fst st) (snd st) = Inr ?fs2" if g
    by (rule write_documents_returns)
      (use that dw fp fq in \<open>simp_all add: document_paths_free_def typesets_def\<close>)
  have run: "run_report lib ai proj fs csv g = (Inr ?b, ?fs)"
    by (rule run_report_returns [OF load p r docs])
  have k1: "column (strip_columns lib df0) (ustr ''listed_in'') = None \<or>
      top_genres lib df = [] \<longrightarrow>
        skipped proj fs ?b ?fs ''top_genres'' ''top_genres.png''"
  proof
    assume "column (strip_columns lib df0) (ustr ''listed_in'') = None \<or>
      top_genres lib df = []"
    then have "top_genres lib df = []" using absent_column_empty(1) [OF p] by blast
    with i1 show "skipped proj fs ?b ?fs ''top_genres'' ''top_genres.png''"
      by (simp add: skipped_def chart_paths_distinct)
  qed
  have k2: "column (strip_columns lib df0) (ustr ''director'') = None \<or>
      top_directors df = [] \<longrightarrow>
        skipped proj fs ?b ?fs ''top_directors'' ''top_directors.png''"
  proof
    assume "column (strip_columns lib df0) (ustr ''director'') = None \<or>
      top_directors df = []"
    then have "top_directors df = []" using absent_column_empty(2) [OF p] by blast
    with i2 show "skipped proj fs ?b ?fs ''top_directors'' ''top_directors.png''"
      by (simp add: skipped_def chart_paths_distinct)
  qed
  have k3: "column (strip_columns lib df0) (ustr ''rating'') = None \<or>
      rating_counts df = [] \<longrightarrow>
        skipped proj fs ?b ?fs ''rating_distribution'' ''rating_distribution.png''"
  proof
    assume "column (strip_columns lib df0) (ustr ''rating'') = None \<or>
      rating_counts df = []"
    then have "rating_counts df = []" using absent_column_empty(3) [OF p] by blast
    with i3 show "skipped proj fs ?b ?fs ''rating_distribution'' ''rating_distribution.png''"
      by (simp add: skipped_def chart_paths_distinct)
  qed
  have k4: "column (strip_columns lib df0) (ustr ''release_year'') = None \<or>
      per_year df = [] \<longrightarrow>
        skipped proj fs ?b ?fs ''titles_per_year'' ''titles_per_year.png''"
  proof
    assume "column (strip_columns lib df0) (ustr ''release_year'') = None \<or>
      per_year df = []"
    then have "per_year df = []" using absent_column_empty(4) [OF p] by blast
    with i4 show "skipped proj fs ?b ?fs ''titles_per_year'' ''titles_per_year.png''"
      by (simp add: skipped_def chart_paths_distinct)
  qed
  have k5: "column (strip_columns lib df0) (ustr ''type'') = None \<or>
      type_counts df = [] \<longrightarrow>
        skipped proj fs ?b ?fs ''type_count'' ''type_count.png''"
  proof
    assume "column (strip_columns lib df0) (ustr ''type'') = None \<or>
      type_counts df = []"
    then have "type_counts df = []" using absent_column_empty(5) [OF p] by blast
    with i5 show "skipped proj fs ?b ?fs ''type_count'' ''type_count.png''"
      by (simp add: skipped_def chart_paths_distinct)
  qed
  have k6: "column (strip_columns lib df0) (ustr ''duration'') = None \<or>
      column (strip_columns lib df0) (ustr ''type'') = None \<or>
      avg_duration df = [] \<longrightarrow>
        skipped proj fs ?b ?fs ''avg_movie_duration'' ''avg_movie_duration.png''"
  proof
    assume "column (strip_columns lib df0) (ustr ''duration'') = None \<or>
      column (strip_columns lib df0) (ustr ''type'') = None \<or>
      avg_duration df = []"
    then have "avg_duration df = []" using absent_column_empty(7) [OF p] absent_column_empty(6) [OF p] by blast
    with i6 show "skipped proj fs ?b ?fs ''avg_movie_duration'' ''avg_movie_duration.png''"
      by (simp add: skipped_def chart_paths_distinct)
  qed
  show ?thesis using p run k1 k2 k3 k4 k5 k6 by blast
qed

lemma strip_two_rows: "strip_columns lib two_rows = two_rows"
  by (simp add: two_rows_def strip_columns_def strip_def is_space_def ustr_def)


lemma unambiguous_two_rows: "unambiguous lib two_rows"
  by (simp add: unambiguous_labels strip_two_rows) (simp add: two_rows_def ambiguous_def ustr_eq)


lemma charts_writable_reads_as:
  "charts_writable (reads_as df) ''/app'' only_current"
  "charts_writable (reads_as df) ''/app'' old_reports"
  by (simp_all add: charts_writable_def reads_as_def chart_files_def only_current_def
      old_reports_def REPORTS_DIR_def path_join_def)

lemma load_reads_as:
  "load_csv (reads_as df) only_current (resolve_csv ''/app'' only_current None) = Inr df"
  "load_csv (reads_as df) old_reports (resolve_csv ''/app'' old_reports None) = Inr df"
  by (simp_all add: load_csv_def resolve_csv_def exists_def only_current_def old_reports_def
      reads_as_def DATA_DIR_def path_join_def)









subsection \<open>Missing columns\<close>



subsection \<open>Aggregates\<close>

text \<open>
  C2. For the two-row dataset of the specification's scenario, preparation
  succeeds and the genre aggregate is Drama 2, Comedy 1 (the multi-value column
  split on comma-space and counted across rows), the type aggregate is Movie 1,
  TV Show 1, and the average duration by type is 90 for Movie and 2 for
  TV Show.
\<close>

theorem two_row_scenario:
  "\<exists>df. prepare lib two_rows = Inr df \<and>
     top_genres lib df = [(Str (ustr ''Drama''), 2), (Str (ustr ''Comedy''), 1)] \<and>
     map_of (type_counts df) = [Str (ustr ''Movie'') \<mapsto> 1, Str (ustr ''TV Show'') \<mapsto> 1] \<and>
     map_of (avg_duration df) = [Str (ustr ''Movie'') \<mapsto> Flt 90, Str (ustr ''TV Show'') \<mapsto> Flt 2]"
proof -
  let ?df = "[(ustr ''type'', [Str (ustr ''Movie''), Str (ustr ''TV Show'')]),
          (ustr ''listed_in'', [Str (ustr ''Drama, Comedy''), Str (ustr ''Drama'')]),
          (ustr ''rating'', [Str (ustr ''PG-13''), Str (ustr ''TV-MA'')]),
          (ustr ''release_year'', to_numeric lib [Num 2020, Num 2021]),
          (ustr ''duration'', [Str (ustr ''90 min''), Str (ustr ''2 Seasons'')]),
          (ustr ''duration_num'', [Flt 90, Flt 2])]"
  have g: "top_genres lib ?df = [(Str (ustr ''Drama''), 2), (Str (ustr ''Comedy''), 1)]"
    by (simp add: column_def top_genres_def head_def value_counts_def
        split_stack_def dropna_def astype_str_def split_comma_space_def uniques_def ustr_def)
  have t: "type_counts ?df = [(Str (ustr ''Movie''), 1), (Str (ustr ''TV Show''), 1)]"
    by (simp add: column_def type_counts_def value_counts_def dropna_def uniques_def ustr_def)
  have m: "mean [Flt 90] = Flt 90" "mean [Flt 2] = Flt 2"
    by (simp_all add: mean_def cell_real_def)
  have a: "avg_duration ?df = [(Str (ustr ''Movie''), Flt 90), (Str (ustr ''TV Show''), Flt 2)]"
    by (simp add: column_def avg_duration_def groupby_mean_def Let_def uniques_def ustr_def m)
  show ?thesis
    by (rule exI [of _ ?df]) (simp add: prepare_two_rows g t a fun_eq_iff ustr_eq)
qed

theorem two_row_scenario_witness:
  "\<exists>df. prepare (reads_as two_rows) two_rows = Inr df \<and>
     top_genres (reads_as two_rows) df = [(Str (ustr ''Drama''), 2), (Str (ustr ''Comedy''), 1)] \<and>
     map_of (type_counts df) (Str (ustr ''TV Show'')) = Some 1 \<and>
     map_of (avg_duration df) (Str (ustr ''Movie'')) = Some (Flt 90)"
proof -
  from two_row_scenario [of "reads_as two_rows"] obtain df where
    "prepare (reads_as two_rows) two_rows = Inr df"
    "top_genres (reads_as two_rows) df = [(Str (ustr ''Drama''), 2), (Str (ustr ''Comedy''), 1)]"
    "map_of (type_counts df) = [Str (ustr ''Movie'') \<mapsto> 1, Str (ustr ''TV Show'') \<mapsto> 1]"
    "map_of (avg_duration df) = [Str (ustr ''Movie'') \<mapsto> Flt 90, Str (ustr ''TV Show'') \<mapsto> Flt 2]"
    by blast
  then show ?thesis by (auto simp: ustr_eq)
qed

text \<open>
  C3. For every dataset, the top-genres and the top-directors aggregate have at
  most 10 entries each, and each is ordered by non-increasing count.
\<close>

theorem top_n_bounded_and_sorted:
  "length (top_genres lib df) \<le> 10 \<and> length (top_directors df) \<le> 10 \<and>
   sorted_wrt (\<lambda>a b. snd b \<le> snd a) (top_genres lib df) \<and>
   sorted_wrt (\<lambda>a b. snd b \<le> snd a) (top_directors df)"
  by (simp add: top_genres_length top_directors_length top_genres_sorted top_directors_sorted)

theorem top_n_bounded_and_sorted_witness:
  "length (top_genres (reads_as two_rows) two_rows) = 2 \<and>
   length (top_genres (reads_as two_rows) two_rows) \<le> 10 \<and>
   sorted_wrt (\<lambda>a b. snd b \<le> snd a) (top_genres (reads_as two_rows) two_rows)"
proof -
  have "top_genres (reads_as two_rows) two_rows =
      [(Str (ustr ''Drama''), 2), (Str (ustr ''Comedy''), 1)]"
    by (simp add: two_rows_def column_def top_genres_def head_def value_counts_def
        split_stack_def dropna_def astype_str_def split_comma_space_def uniques_def ustr_def)
  then show ?thesis using top_n_bounded_and_sorted [of "reads_as two_rows" two_rows] by simp
qed

text \<open>
  C9, as stated, fails: with ratings PG, missing, PG, R the aggregate is PG 2,
  R 1; the row without a rating is counted under no key, and the counts add
  up to fewer than the rows.
\<close>

theorem rating_counts_skip_missing:
  "rating_counts ratings_with_gap = [(Str (ustr ''PG''), 2), (Str (ustr ''R''), 1)] \<and>
   map_of (rating_counts ratings_with_gap) NaN = None \<and>
   sum_list (map snd (rating_counts ratings_with_gap)) < nrows ratings_with_gap"
proof -
  have r: "rating_counts ratings_with_gap = [(Str (ustr ''PG''), 2), (Str (ustr ''R''), 1)]"
    by (simp add: ratings_with_gap_def rating_counts_def column_def value_counts_def dropna_def
        uniques_def ustr_def)
  show ?thesis unfolding r by (simp add: ratings_with_gap_def nrows_def)
qed

text \<open>
  C9, amended. The ratings-distribution aggregate counts every non-missing
  value of the rating column (each such value once, with the number of rows
  that carry it; rows whose rating is missing are left out), ordered by
  descending frequency.
\<close>

theorem rating_counts_non_missing:
  "column df (ustr ''rating'') = Some col \<Longrightarrow>
   map_of (rating_counts df) v =
     (if v \<in> set col \<and> v \<noteq> NaN then Some (count_list col v) else None) \<and>
   distinct (map fst (rating_counts df)) \<and>
   sorted_wrt (\<lambda>a b. snd b \<le> snd a) (rating_counts df)"
  by (simp add: rating_counts_def map_of_value_counts value_counts_distinct value_counts_sorted)

theorem rating_counts_non_missing_witness:
  "column ratings_with_gap (ustr ''rating'') =
     Some [Str (ustr ''PG''), NaN, Str (ustr ''PG''), Str (ustr ''R'')] \<and>
   map_of (rating_counts ratings_with_gap) (Str (ustr ''PG'')) = Some 2 \<and>
   sorted_wrt (\<lambda>a b. snd b \<le> snd a) (rating_counts ratings_with_gap)"
proof -
  have c: "column ratings_with_gap (ustr ''rating'') =
      Some [Str (ustr ''PG''), NaN, Str (ustr ''PG''), Str (ustr ''R'')]"
    by (simp add: ratings_with_gap_def column_def)
  show ?thesis
    using c rating_counts_non_missing [OF c, of "Str (ustr ''PG'')"] by (simp add: ustr_eq)
qed

subsection \<open>Dataset resolution\<close>

text \<open>
  C4, as stated, fails: with a current dataset in place and an explicit path
  that names nothing, the order of the specification falls through to the
  current dataset, which exists, so no not-found error is due; the pipeline
  keeps the explicit path and fails with the not-found error.
\<close>

theorem explicit_path_no_fallback:
  "resolve_as_specified ''/app'' only_current (Some ''/tmp/missing.csv'') =
     ''/app/data/current_dataset.csv'' \<and>
   exists only_current (resolve_as_specified ''/app'' only_current (Some ''/tmp/missing.csv'')) \<and>
   fst (run_report (reads_as two_rows) client_absent ''/app'' only_current
          (Some ''/tmp/missing.csv'') True) =
     Inl (FileNotFoundError ''CSV file not found: /tmp/missing.csv'')"
  by (simp add: resolve_as_specified_def run_report_def resolve_csv_def exists_def
      only_current_def DATA_DIR_def path_join_def)

text \<open>
  C4, amended. Dataset resolution is: (1) the explicit path if one is given,
  whether or not it exists; otherwise (2) the current dataset if present;
  otherwise (3) the bundled default dataset. A successful run reports the
  resolved path, and the pipeline fails with a not-found error exactly when
  the resolved path does not exist (leaving the file system as it was).
\<close>

theorem resolution_order:
  "resolve_csv proj fs (Some p) = p \<and>
   resolve_csv proj fs None =
     (if exists fs (current_dataset_path proj) then current_dataset_path proj
      else path_join (DATA_DIR proj) ''netflix_titles.csv'') \<and>
   (\<forall>b. fst (run_report lib ai proj fs csv g) = Inr b \<longrightarrow> csv_path b = resolve_csv proj fs csv) \<and>
   ((\<exists>m. fst (run_report lib ai proj fs csv g) = Inl (FileNotFoundError m)) =
      (\<not> exists fs (resolve_csv proj fs csv))) \<and>
   (\<not> exists fs (resolve_csv proj fs csv) \<longrightarrow>
      run_report lib ai proj fs csv g =
        (Inl (FileNotFoundError (''CSV file not found: '' @ resolve_csv proj fs csv)), fs))"
proof -
  have r: "resolve_csv proj fs (Some p) = p \<and>
      resolve_csv proj fs None =
        (if exists fs (current_dataset_path proj) then current_dataset_path proj
         else path_join (DATA_DIR proj) ''netflix_titles.csv'')"
    by (simp add: resolve_csv_def current_dataset_path_def Let_def)
  have e: "(\<exists>m. fst (run_report lib ai proj fs csv g) = Inl (FileNotFoundError m)) =
      (\<not> exists fs (resolve_csv proj fs csv))"
  proof (cases "exists fs (resolve_csv proj fs csv)")
    case True
    then show ?thesis using run_report_present [of fs proj csv lib ai g] by simp
  next
    case False
    then show ?thesis using run_report_missing [of fs proj csv lib ai g] by simp
  qed
  show ?thesis using r e run_report_missing [of fs proj csv lib ai g]
      run_report_csv_path [of lib ai proj fs csv g] by blast
qed

theorem resolution_order_witness:
  "\<not> exists only_current (resolve_csv ''/app'' only_current (Some ''/tmp/missing.csv'')) \<and>
   run_report (reads_as two_rows) client_absent ''/app'' only_current (Some ''/tmp/missing.csv'') True =
     (Inl (FileNotFoundError ''CSV file not found: /tmp/missing.csv''), only_current) \<and>
   resolve_csv ''/app'' only_current None = ''/app/data/current_dataset.csv''"
proof -
  note t = resolution_order [of "''/app''" only_current "''/tmp/missing.csv''"
      "reads_as two_rows" client_absent "Some ''/tmp/missing.csv''" True]
  have c: "exists only_current (current_dataset_path ''/app'')"
      "current_dataset_path ''/app'' = ''/app/data/current_dataset.csv''"
    by (simp_all add: exists_def only_current_def current_dataset_path_def DATA_DIR_def path_join_def)
  have n: "\<not> exists only_current ''/tmp/missing.csv''"
    by (simp add: exists_def only_current_def)
  from t have p: "resolve_csv ''/app'' only_current (Some ''/tmp/missing.csv'') = ''/tmp/missing.csv''"
    by blast
  from t c have q: "resolve_csv ''/app'' only_current None = ''/app/data/current_dataset.csv''"
    by simp
  from t p n have "run_report (reads_as two_rows) client_absent ''/app'' only_current
       (Some ''/tmp/missing.csv'') True =
     (Inl (FileNotFoundError (''CSV file not found: '' @ ''/tmp/missing.csv'')), only_current)"
    by simp
  with p q n show ?thesis by simp
qed

subsection \<open>Feature preparation\<close>




subsection \<open>Narrative failure\<close>



subsection \<open>Analysis without documents\<close>

text \<open>
  C10. With document generation disabled, as on the analyze path, a bundle that
  is returned has neither a PDF path nor a slide-deck path, and the PDF and the
  slide-deck file in the reports directory are what they were before the call,
  present or not; the run writes nothing but chart files.
\<close>

theorem analyze_leaves_documents:
  "(\<forall>b. fst (run_report lib ai proj fs csv False) = Inr b \<longrightarrow>
        pdf_file b = None \<and> ppt_file b = None) \<and>
   snd (run_report lib ai proj fs csv False) (pdf_path proj) = fs (pdf_path proj) \<and>
   snd (run_report lib ai proj fs csv False) (ppt_path proj) = fs (ppt_path proj) \<and>
   snd (analyze lib ai proj fs csv) (pdf_path proj) = fs (pdf_path proj) \<and>
   snd (analyze lib ai proj fs csv) (ppt_path proj) = fs (ppt_path proj) \<and>
   (\<forall>q. q \<notin> set (map (path_join (REPORTS_DIR proj)) chart_files) \<longrightarrow>
        snd (analyze lib ai proj fs csv) q = fs q)"
proof -
  have a: "\<forall>b. fst (run_report lib ai proj fs csv False) = Inr b \<longrightarrow>
        pdf_file b = None \<and> ppt_file b = None"
    using run_report_no_document_paths [of lib ai proj fs csv] by blast
  have p: "snd (run_report lib ai proj fs csv False) (pdf_path proj) = fs (pdf_path proj)"
    by (rule run_report_no_documents [OF document_paths_not_charts(1)])
  have q: "snd (run_report lib ai proj fs csv False) (ppt_path proj) = fs (ppt_path proj)"
    by (rule run_report_no_documents [OF document_paths_not_charts(2)])
  have r: "\<forall>q. q \<notin> set (map (path_join (REPORTS_DIR proj)) chart_files) \<longrightarrow>
        snd (analyze lib ai proj fs csv) q = fs q"
    unfolding analyze_snd using run_report_no_documents [of _ proj lib ai fs csv] by blast
  show ?thesis unfolding analyze_snd using a p q r [unfolded analyze_snd] by blast
qed

theorem analyze_leaves_documents_witness:
  "(\<exists>b. fst (run_report (reads_as two_rows) client_absent ''/app'' old_reports None False) = Inr b \<and>
        pdf_file b = None \<and> ppt_file b = None) \<and>
   snd (analyze (reads_as two_rows) client_absent ''/app'' old_reports None)
       ''/app/reports/netflix_report.pdf'' = Some (File (Raw ''old pdf'')) \<and>
   snd (analyze (reads_as two_rows) client_absent ''/app'' old_reports None)
       ''/app/reports/netflix_report.pptx'' = None"
proof -
  note l = load_reads_as(2) [of two_rows]
  note u = unambiguous_two_rows [of "reads_as two_rows"]
  note w = charts_writable_reads_as(2) [of two_rows]
  from run_report_skips [OF l u w, of False client_absent]
  obtain b fs' where
    r: "run_report (reads_as two_rows) client_absent ''/app'' old_reports None False = (Inr b, fs')"
    by blast
  have p: "pdf_path ''/app'' = ''/app/reports/netflix_report.pdf''"
      "ppt_path ''/app'' = ''/app/reports/netflix_report.pptx''"
    by (simp_all add: pdf_path_def ppt_path_def REPORTS_DIR_def path_join_def)
  have o: "old_reports ''/app/reports/netflix_report.pdf'' = Some (File (Raw ''old pdf''))"
      "old_reports ''/app/reports/netflix_report.pptx'' = None"
    by (simp_all add: old_reports_def)
  note t = analyze_leaves_documents [of "reads_as two_rows" client_absent "''/app''" old_reports None]
  from t r have "pdf_file b = None \<and> ppt_file b = None" by simp
  with t r p o show ?thesis by simp
qed

subsection \<open>HTTP gateway\<close>



text \<open>
  C8. An upload whose file name does not end in \<^verbatim>\<open>.csv\<close> (in any letter case)
  is refused with the client error (status 400), and the file system is left
  as it was: nothing is written under the uploads directory or to the current
  dataset.
\<close>

theorem upload_rejects_non_csv:
  "\<not> suffix ''.csv'' (lower filename) \<Longrightarrow>
   upload proj fs filename body =
     (Inl (HTTPException 400 ''Only CSV files are supported for now.''), fs)"
proof -
  assume h: "\<not> suffix ''.csv'' (lower filename)"
  have "lower (splitext_ext filename) \<noteq> ''.csv''"
  proof
    assume "lower (splitext_ext filename) = ''.csv''"
    with splitext_ext_suffix [of filename] have "suffix ''.csv'' (lower filename)" by simp
    with h show False by simp
  qed
  then show ?thesis by (simp add: upload_def)
qed

theorem upload_rejects_non_csv_witness:
  "\<not> suffix ''.csv'' (lower ''notes.txt'') \<and>
   upload ''/app'' only_current ''notes.txt'' ''hello'' =
     (Inl (HTTPException 400 ''Only CSV files are supported for now.''), only_current)"
  using upload_rejects_non_csv [of "''notes.txt''" "''/app''" only_current "''hello''"]
  by (simp add: lower_def lower_char_def suffix_def)

end
